theory Spec2Isabelle
  imports Complex_Main "HOL-Library.Word" "HOL-Library.Signed_Division"
begin

section \<open>The BedJet climate entity (custom\_components/bedjet/climate.py)\<close>

text \<open>
  The entity of \<^verbatim>\<open>climate.py\<close> is embedded as follows. Enumerations are datatypes whose
  constructors carry the enumeration's name as a prefix (\<open>HVACMode.off\<close> and
  \<open>PresetMode.off\<close> are different members). A notification payload is a list of bytes.
  Python's \<open>int\<close> is \<open>int\<close>. A Python \<open>float\<close> is modelled by the rational number it
  approximates. The floats the code computes are integers, quotients of an integer by 5
  or by 9 and, in \<open>handle_data\<close>, the difference of an integer and such a quotient. On
  the integers that occur (bytes, percents, temperatures up to \<open>2\<^sup>5\<^sup>3\<close> in magnitude)
  the conversion of an integer to a float is exact, and every other float differs from
  its rational by less than the rational differs from the nearest integer or rounding
  tie (at least \<open>1/18\<close>, since 5 and 9 are odd), so \<open>round\<close> and \<open>int\<close> give on the
  float the integer they give on the rational. An exception is a value of type
  \<open>error\<close>; a method that mutates the entity returns the entity it leaves behind
  together with its outcome.
\<close>

subsection \<open>Python values and exceptions\<close>

type_synonym byte = "8 word"

datatype error =
    IndexError
  | AttributeError
  | KeyError
  | ValueError
  | TypeError
  | BleakError
  | OtherError
  | Exception string

text \<open>An element of a command list: an integer, or \<open>None\<close> where a table lookup missed.\<close>

datatype pyval = PyInt int | PyNone

text \<open>\<open>value[i]\<close> on a bytearray with a non-negative constant index.\<close>

definition getitem :: "byte list \<Rightarrow> nat \<Rightarrow> error + int" where
  "getitem v i = (if i < length v then Inr (uint (v ! i)) else Inl IndexError)"

text \<open>\<open>round(x)\<close>: to the nearest integer, a tie going to the even neighbour.\<close>

definition py_round :: "rat \<Rightarrow> int" where
  "py_round x =
     (let f = \<lfloor>x\<rfloor>; r = x - of_int f
      in if r < 1 / 2 then f
         else if 1 / 2 < r then f + 1
         else if even f then f else f + 1)"

text \<open>\<open>int(x)\<close> on a float: truncation towards zero.\<close>

definition py_int :: "rat \<Rightarrow> int" where
  "py_int x = (if 0 \<le> x then \<lfloor>x\<rfloor> else \<lceil>x\<rceil>)"

text \<open>\<open>str(n)\<close> for a non-negative integer.\<close>

definition digit_char :: "nat \<Rightarrow> char" where
  "digit_char d = ''0123456789'' ! d"

fun str_nat :: "nat \<Rightarrow> string" where
  "str_nat n = (if n < 10 then [digit_char n] else str_nat (n div 10) @ [digit_char (n mod 10)])"

declare str_nat.simps [simp del]

definition str_int :: "int \<Rightarrow> string" where
  "str_int n = (if n < 0 then CHR ''-'' # str_nat (nat (- n)) else str_nat (nat n))"

subsection \<open>FanMode\<close>

datatype FanMode = Fan_min | Fan_low | Fan_medium | Fan_high | Fan_max

fun FanMode_value :: "FanMode \<Rightarrow> int" where
  "FanMode_value Fan_min = 10"
| "FanMode_value Fan_low = 25"
| "FanMode_value Fan_medium = 50"
| "FanMode_value Fan_high = 75"
| "FanMode_value Fan_max = 100"

text \<open>Iterating over the enumeration goes through its members in definition order.\<close>

definition FanMode_members :: "FanMode list" where
  "FanMode_members = [Fan_min, Fan_low, Fan_medium, Fan_high, Fan_max]"

text \<open>The \<open>for fan_mode in FanMode\<close> loop of \<open>get_fan_mode\<close>.\<close>

fun get_fan_mode_loop :: "int \<Rightarrow> FanMode list \<Rightarrow> FanMode option" where
  "get_fan_mode_loop fan_pct [] = None"
| "get_fan_mode_loop fan_pct (fan_mode # rest) =
     (if fan_pct \<le> FanMode_value fan_mode then Some fan_mode
      else get_fan_mode_loop fan_pct rest)"

text \<open>\<open>not fan_pct\<close> holds for \<open>None\<close> and for \<open>0\<close>.\<close>

definition get_fan_mode :: "int option \<Rightarrow> FanMode option" where
  "get_fan_mode fan_pct =
     (case fan_pct of
        None \<Rightarrow> None
      | Some p \<Rightarrow> if p = 0 then None else get_fan_mode_loop p FanMode_members)"

text \<open>\<open>FanMode[name]\<close>: lookup of a member by its name.\<close>

definition FanMode_by_name :: "string \<Rightarrow> error + FanMode" where
  "FanMode_by_name name =
     (case map_of [(''min'', Fan_min), (''low'', Fan_low), (''medium'', Fan_medium),
                   (''high'', Fan_high), (''max'', Fan_max)] name of
        None \<Rightarrow> Inl KeyError
      | Some m \<Rightarrow> Inr m)"

subsection \<open>HVACMode and PresetMode\<close>

datatype HVACMode = HVAC_off | HVAC_cool | HVAC_heat | HVAC_dry

text \<open>
  The members' values are Home Assistant's constants \<open>HVAC_MODE_OFF\<close>, \<open>HVAC_MODE_COOL\<close>,
  \<open>HVAC_MODE_HEAT\<close> and \<open>HVAC_MODE_DRY\<close>.
\<close>

fun HVACMode_value :: "HVACMode \<Rightarrow> string" where
  "HVACMode_value HVAC_off = ''off''"
| "HVACMode_value HVAC_cool = ''cool''"
| "HVACMode_value HVAC_heat = ''heat''"
| "HVACMode_value HVAC_dry = ''dry''"

datatype PresetMode =
    Preset_off | Preset_cool | Preset_heat | Preset_dry
  | Preset_turbo | Preset_ext_ht | Preset_m1 | Preset_m2 | Preset_m3

fun PresetMode_value :: "PresetMode \<Rightarrow> string" where
  "PresetMode_value Preset_off = HVACMode_value HVAC_off"
| "PresetMode_value Preset_cool = HVACMode_value HVAC_cool"
| "PresetMode_value Preset_heat = HVACMode_value HVAC_heat"
| "PresetMode_value Preset_dry = HVACMode_value HVAC_dry"
| "PresetMode_value Preset_turbo = ''turbo''"
| "PresetMode_value Preset_ext_ht = ''ext_ht''"
| "PresetMode_value Preset_m1 = ''m1''"
| "PresetMode_value Preset_m2 = ''m2''"
| "PresetMode_value Preset_m3 = ''m3''"

definition PresetMode_members :: "PresetMode list" where
  "PresetMode_members =
     [Preset_off, Preset_cool, Preset_heat, Preset_dry, Preset_turbo, Preset_ext_ht,
      Preset_m1, Preset_m2, Preset_m3]"

text \<open>\<open>to_hvac\<close>: \<open>map.get(self)\<close> on the dictionary of six entries; a miss is \<open>None\<close>.\<close>

definition to_hvac :: "PresetMode \<Rightarrow> HVACMode option" where
  "to_hvac self =
     map_of [(Preset_off, HVAC_off), (Preset_cool, HVAC_cool), (Preset_heat, HVAC_heat),
             (Preset_dry, HVAC_dry), (Preset_turbo, HVAC_heat), (Preset_ext_ht, HVAC_heat)] self"

text \<open>\<open>HVACMode(value)\<close> and \<open>PresetMode(value)\<close>: the member with that value, or a \<open>ValueError\<close>.\<close>

definition HVACMode_members :: "HVACMode list" where
  "HVACMode_members = [HVAC_off, HVAC_cool, HVAC_heat, HVAC_dry]"

definition HVACMode_of_value :: "string \<Rightarrow> error + HVACMode" where
  "HVACMode_of_value x =
     (case find (\<lambda>m. HVACMode_value m = x) HVACMode_members of
        None \<Rightarrow> Inl ValueError
      | Some m \<Rightarrow> Inr m)"

definition PresetMode_of_value :: "string \<Rightarrow> error + PresetMode" where
  "PresetMode_of_value x =
     (case find (\<lambda>m. PresetMode_value m = x) PresetMode_members of
        None \<Rightarrow> Inl ValueError
      | Some m \<Rightarrow> Inr m)"

text \<open>
  \<open>command()\<close> is \<open>BEDJET_COMMANDS.get(self.value)\<close>. The dictionary lives in
  \<^verbatim>\<open>const.py\<close>, which is not part of the sources at hand, so it is a parameter here.
\<close>

definition HVACMode_command :: "(string \<rightharpoonup> int) \<Rightarrow> HVACMode \<Rightarrow> pyval" where
  "HVACMode_command BEDJET_COMMANDS self =
     (case BEDJET_COMMANDS (HVACMode_value self) of None \<Rightarrow> PyNone | Some b \<Rightarrow> PyInt b)"

definition PresetMode_command :: "(string \<rightharpoonup> int) \<Rightarrow> PresetMode \<Rightarrow> pyval" where
  "PresetMode_command BEDJET_COMMANDS self =
     (case BEDJET_COMMANDS (PresetMode_value self) of None \<Rightarrow> PyNone | Some b \<Rightarrow> PyInt b)"

subsection \<open>The entity, its client and the transport behind it\<close>

text \<open>
  The only callback the code ever registers on the client is \<open>self.on_disconnect\<close>.
  Every call that leaves the entity (to the client, to the event loop, to Home Assistant)
  is appended to a trace, in the order the code makes it.
\<close>

datatype callback = On_disconnect

datatype event =
    Ev_connect
  | Ev_disconnect
  | Ev_sleep int
  | Ev_set_disconnected_callback "callback option"
  | Ev_write_gatt_char "pyval list"
  | Ev_schedule_update_ha_state
  | Ev_create_task_connect_and_subscribe

type_synonym datetime = int

record entity =
  mac :: string
  current_temperature :: "int option"
  target_temperature :: "int option"
  hvac_mode :: "HVACMode option"
  preset_mode :: "PresetMode option"
  time :: "int option"
  timestring :: "string option"
  fan_pct :: "int option"
  last_seen :: "datetime option"
  is_connected :: bool
  disconnected_callback :: "callback option"
  trace :: "event list"

text \<open>
  The Bluetooth client is outside the repository. What it does is given by a transport:
  for the k-th call of \<open>connect\<close> and of \<open>disconnect\<close> (counted from 0), the exception
  it raises, if any, and whether the client reports connected afterwards; for the k-th
  write, the exception it raises, if any. Any sequence of outcomes can be written so.
  Between two calls the client does not change what it reports.
\<close>

record transport =
  connect_outcome :: "nat \<Rightarrow> error option \<times> bool"
  disconnect_outcome :: "nat \<Rightarrow> error option \<times> bool"
  write_outcome :: "nat \<Rightarrow> error option"

definition is_write :: "event \<Rightarrow> bool" where
  "is_write ev = (case ev of Ev_write_gatt_char c \<Rightarrow> True | _ \<Rightarrow> False)"

definition client_connect :: "transport \<Rightarrow> entity \<Rightarrow> error option \<times> entity" where
  "client_connect t s =
     (let (err, c) = connect_outcome t (count_list (trace s) Ev_connect)
      in (err, s\<lparr>is_connected := c, trace := trace s @ [Ev_connect]\<rparr>))"

definition client_disconnect :: "transport \<Rightarrow> entity \<Rightarrow> error option \<times> entity" where
  "client_disconnect t s =
     (let (err, c) = disconnect_outcome t (count_list (trace s) Ev_disconnect)
      in (err, s\<lparr>is_connected := c, trace := trace s @ [Ev_disconnect]\<rparr>))"

definition client_set_disconnected_callback :: "callback option \<Rightarrow> entity \<Rightarrow> entity" where
  "client_set_disconnected_callback cb s =
     s\<lparr>disconnected_callback := cb, trace := trace s @ [Ev_set_disconnected_callback cb]\<rparr>"

definition client_write_gatt_char :: "transport \<Rightarrow> pyval list \<Rightarrow> entity \<Rightarrow> error option \<times> entity" where
  "client_write_gatt_char t command s =
     (write_outcome t (length (filter is_write (trace s))),
      s\<lparr>trace := trace s @ [Ev_write_gatt_char command]\<rparr>)"

definition asyncio_sleep :: "int \<Rightarrow> entity \<Rightarrow> entity" where
  "asyncio_sleep seconds s = s\<lparr>trace := trace s @ [Ev_sleep seconds]\<rparr>"

definition schedule_update_ha_state :: "entity \<Rightarrow> entity" where
  "schedule_update_ha_state s = s\<lparr>trace := trace s @ [Ev_schedule_update_ha_state]\<rparr>"

text \<open>
  \<open>__init__\<close>: the client is created with \<open>disconnected_callback=self.on_disconnect\<close>, not
  yet connected; every status field is \<open>None\<close>.
\<close>

definition init :: "string \<Rightarrow> entity" where
  "init address =
     \<lparr>mac = address, current_temperature = None, target_temperature = None,
      hvac_mode = None, preset_mode = None, time = None, timestring = None,
      fan_pct = None, last_seen = None, is_connected = False,
      disconnected_callback = Some On_disconnect, trace = []\<rparr>"

subsection \<open>connect, on\_disconnect, disconnect\<close>

text \<open>
  The body of the \<open>for i in range(0, max_retries)\<close> loop of \<open>connect\<close>, over the indices
  still to run. \<open>except Exception\<close> catches whatever \<open>client.connect()\<close> raises; the
  inner \<open>except BleakError\<close> catches a \<open>BleakError\<close> of \<open>client.disconnect()\<close> only, any
  other exception leaves \<open>connect\<close>. The result \<open>None\<close> means the loop ended (by
  \<open>break\<close> or by running out of indices).
\<close>

fun connect_loop :: "transport \<Rightarrow> nat list \<Rightarrow> entity \<Rightarrow> error option \<times> entity" where
  "connect_loop t [] s = (None, s)"
| "connect_loop t (i # rest) s =
     (case client_connect t s of
        (None, s1) \<Rightarrow>
          if is_connected s1
          then (None, client_set_disconnected_callback (Some On_disconnect) s1)
          else connect_loop t rest s1
      | (Some err, s1) \<Rightarrow>
          (let backoff_seconds = (int i + 1) * 10 in
           case client_disconnect t s1 of
             (Some err2, s2) \<Rightarrow>
               if err2 = BleakError
               then (let s3 = asyncio_sleep backoff_seconds s2 in
                     if is_connected s3
                     then (None, client_set_disconnected_callback (Some On_disconnect) s3)
                     else connect_loop t rest s3)
               else (Some err2, s2)
           | (None, s2) \<Rightarrow>
               (let s3 = asyncio_sleep backoff_seconds s2 in
                if is_connected s3
                then (None, client_set_disconnected_callback (Some On_disconnect) s3)
                else connect_loop t rest s3)))"

definition connect_failed :: "string \<Rightarrow> int \<Rightarrow> error" where
  "connect_failed address max_retries =
     Exception (''Failed to connect to '' @ address @ '' after '' @ str_int max_retries
                @ '' attempts.'')"

definition connect :: "transport \<Rightarrow> int \<Rightarrow> entity \<Rightarrow> error option \<times> entity" where
  "connect t max_retries s =
     (case connect_loop t [0..<nat max_retries] s of
        (Some err, s') \<Rightarrow> (Some err, s')
      | (None, s') \<Rightarrow>
          if \<not> is_connected s' then (Some (connect_failed (mac s') max_retries), s')
          else (None, s'))"

text \<open>\<open>connect()\<close> without an argument: \<open>max_retries\<close> has the default 10.\<close>

definition connect_default :: "transport \<Rightarrow> entity \<Rightarrow> error option \<times> entity" where
  "connect_default t s = connect t 10 s"

text \<open>
  \<open>on_disconnect\<close>, up to the task it creates: the reconnection runs later, as a task of
  its own.
\<close>

definition on_disconnect :: "entity \<Rightarrow> entity" where
  "on_disconnect s =
     (let s1 = client_set_disconnected_callback None s;
          s2 = schedule_update_ha_state s1
      in s2\<lparr>trace := trace s2 @ [Ev_create_task_connect_and_subscribe]\<rparr>)"

definition disconnect :: "transport \<Rightarrow> entity \<Rightarrow> error option \<times> entity" where
  "disconnect t s = client_disconnect t (client_set_disconnected_callback None s)"

subsection \<open>handle\_data\<close>

text \<open>Sequencing of steps that may raise: the first exception ends the computation.\<close>

definition bind_err :: "error + 'a \<Rightarrow> ('a \<Rightarrow> error + 'b) \<Rightarrow> error + 'b" where
  "bind_err m f = (case m of Inl e \<Rightarrow> Inl e | Inr x \<Rightarrow> f x)"

text \<open>The temperature shown for a raw byte: \<open>round(((b - 0x26) + 66) - ((b - 0x26) / 9))\<close>.\<close>

definition temperature_of_byte :: "int \<Rightarrow> int" where
  "temperature_of_byte b = py_round ((of_int ((b - 0x26) + 66)) - (of_int (b - 0x26) / 9))"

definition get_current_temperature :: "byte list \<Rightarrow> error + int" where
  "get_current_temperature v = bind_err (getitem v 7) (\<lambda>b. Inr (temperature_of_byte b))"

definition get_target_temperature :: "byte list \<Rightarrow> error + int" where
  "get_target_temperature v = bind_err (getitem v 8) (\<lambda>b. Inr (temperature_of_byte b))"

definition get_time :: "byte list \<Rightarrow> error + int" where
  "get_time v =
     bind_err (getitem v 4) (\<lambda>h. bind_err (getitem v 5) (\<lambda>m. bind_err (getitem v 6) (\<lambda>sec.
       Inr ((h * 60 * 60) + (m * 60) + sec))))"

definition get_timestring :: "byte list \<Rightarrow> error + string" where
  "get_timestring v =
     bind_err (getitem v 4) (\<lambda>h. bind_err (getitem v 5) (\<lambda>m. bind_err (getitem v 6) (\<lambda>sec.
       Inr (str_int h @ '':'' @ str_int m @ '':'' @ str_int sec))))"

definition get_fan_pct :: "byte list \<Rightarrow> error + int" where
  "get_fan_pct v = bind_err (getitem v 10) (\<lambda>b. Inr (b * 5))"

text \<open>\<open>value[14] == x\<close>, and \<open>value[14] == x and value[13] == y\<close> with its short circuit.\<close>

definition byte14_is :: "byte list \<Rightarrow> int \<Rightarrow> error + bool" where
  "byte14_is v x = bind_err (getitem v 14) (\<lambda>b. Inr (b = x))"

definition byte14_and_13_are :: "byte list \<Rightarrow> int \<Rightarrow> int \<Rightarrow> error + bool" where
  "byte14_and_13_are v x y =
     bind_err (getitem v 14) (\<lambda>b.
       if b = x then bind_err (getitem v 13) (\<lambda>c. Inr (c = y)) else Inr False)"

text \<open>The chain of \<open>if\<close>s of \<open>get_preset_mode\<close>; falling off its end returns \<open>None\<close>.\<close>

definition get_preset_mode :: "byte list \<Rightarrow> error + PresetMode option" where
  "get_preset_mode v =
     bind_err (byte14_and_13_are v 0x50 0x14) (\<lambda>c. if c then Inr (Some Preset_off) else
     bind_err (byte14_is v 0x34) (\<lambda>c. if c then Inr (Some Preset_cool) else
     bind_err (byte14_is v 0x56) (\<lambda>c. if c then Inr (Some Preset_turbo) else
     bind_err (byte14_and_13_are v 0x50 0x2d) (\<lambda>c. if c then Inr (Some Preset_heat) else
     bind_err (byte14_is v 0x3e) (\<lambda>c. if c then Inr (Some Preset_dry) else
     bind_err (byte14_is v 0x43) (\<lambda>c. if c then Inr (Some Preset_ext_ht) else
     bind_err (byte14_is v 0x20) (\<lambda>c. if c then Inr (Some Preset_m1) else
     bind_err (byte14_is v 0x21) (\<lambda>c. if c then Inr (Some Preset_m2) else
     bind_err (byte14_is v 0x22) (\<lambda>c. if c then Inr (Some Preset_m3) else
     Inr None)))))))))"

text \<open>\<open>get_preset_mode(value).to_hvac()\<close>: on \<open>None\<close> the method call raises.\<close>

definition get_hvac_mode :: "byte list \<Rightarrow> error + HVACMode option" where
  "get_hvac_mode v =
     bind_err (get_preset_mode v) (\<lambda>p.
       case p of None \<Rightarrow> Inl AttributeError | Some m \<Rightarrow> Inr (to_hvac m))"

text \<open>
  \<open>handle_data\<close> assigns the fields one statement after the other; an exception leaves
  the method with the assignments made so far in place. \<open>now\<close> is what
  \<open>datetime.now()\<close> returns.
\<close>

definition handle_data :: "datetime \<Rightarrow> byte list \<Rightarrow> entity \<Rightarrow> error option \<times> entity" where
  "handle_data now v s =
     (case get_current_temperature v of Inl e \<Rightarrow> (Some e, s) | Inr x1 \<Rightarrow>
     (let s1 = s\<lparr>current_temperature := Some x1\<rparr> in
     (case get_target_temperature v of Inl e \<Rightarrow> (Some e, s1) | Inr x2 \<Rightarrow>
     (let s2 = s1\<lparr>target_temperature := Some x2\<rparr> in
     (case get_time v of Inl e \<Rightarrow> (Some e, s2) | Inr x3 \<Rightarrow>
     (let s3 = s2\<lparr>time := Some x3\<rparr> in
     (case get_timestring v of Inl e \<Rightarrow> (Some e, s3) | Inr x4 \<Rightarrow>
     (let s4 = s3\<lparr>timestring := Some x4\<rparr> in
     (case get_fan_pct v of Inl e \<Rightarrow> (Some e, s4) | Inr x5 \<Rightarrow>
     (let s5 = s4\<lparr>fan_pct := Some x5\<rparr> in
     (case get_hvac_mode v of Inl e \<Rightarrow> (Some e, s5) | Inr x6 \<Rightarrow>
     (let s6 = s5\<lparr>hvac_mode := x6\<rparr> in
     (case get_preset_mode v of Inl e \<Rightarrow> (Some e, s6) | Inr x7 \<Rightarrow>
     (let s7 = s6\<lparr>preset_mode := x7\<rparr>;
          s8 = s7\<lparr>last_seen := Some now\<rparr>
      in (None, schedule_update_ha_state s8)))))))))))))))"

subsection \<open>Commands\<close>

definition send_command :: "transport \<Rightarrow> pyval list \<Rightarrow> entity \<Rightarrow> error option \<times> entity" where
  "send_command t command s =
     (if is_connected s then client_write_gatt_char t command s else (None, s))"

definition set_mode :: "transport \<Rightarrow> pyval \<Rightarrow> entity \<Rightarrow> error option \<times> entity" where
  "set_mode t mode s = send_command t [PyInt 0x01, mode] s"

definition set_time :: "transport \<Rightarrow> int \<Rightarrow> entity \<Rightarrow> error option \<times> entity" where
  "set_time t minutes s = send_command t [PyInt 0x02, PyInt (minutes div 60), PyInt (minutes mod 60)] s"

text \<open>
  The argument of \<open>async_set_fan_mode\<close>: an integer, a string, a float or a member of
  \<open>FanMode\<close>. \<open>str(fan_mode).isnumeric()\<close> holds for a non-negative integer and for a
  non-empty string of digits (strings are ASCII here); the text of a negative integer,
  of a float and of an enumeration member is never numeric, and \<open>FanMode[...]\<close> then
  finds no member of that name.
\<close>

datatype fan_arg = Fan_int int | Fan_str string | Fan_float rat | Fan_member FanMode

definition is_digit :: "char \<Rightarrow> bool" where
  "is_digit c = (c \<in> set ''0123456789'')"

definition isnumeric :: "string \<Rightarrow> bool" where
  "isnumeric x = (x \<noteq> [] \<and> list_all is_digit x)"

definition int_of_digits :: "string \<Rightarrow> int" where
  "int_of_digits x = foldl (\<lambda>acc c. 10 * acc + (int (of_char c) - 48)) 0 x"

text \<open>The first four lines of \<open>async_set_fan_mode\<close>: the percent the argument stands for.\<close>

definition resolve_fan_pct :: "fan_arg \<Rightarrow> error + int" where
  "resolve_fan_pct fan_mode =
     (case fan_mode of
        Fan_int n \<Rightarrow> if 0 \<le> n then Inr n else Inl KeyError
      | Fan_str x \<Rightarrow>
          if isnumeric x then Inr (int_of_digits x)
          else bind_err (FanMode_by_name x) (\<lambda>m. Inr (FanMode_value m))
      | Fan_float x \<Rightarrow> Inl KeyError
      | Fan_member m \<Rightarrow> Inl KeyError)"

definition async_set_fan_mode :: "transport \<Rightarrow> fan_arg \<Rightarrow> entity \<Rightarrow> error option \<times> entity" where
  "async_set_fan_mode t fan_mode s =
     (case resolve_fan_pct fan_mode of
        Inl e \<Rightarrow> (Some e, s)
      | Inr pct \<Rightarrow>
          if \<not> (0 \<le> pct \<and> pct \<le> 100) then (None, s)
          else send_command t [PyInt 0x07, PyInt (py_round (of_int pct / 5) - 1)] s)"

text \<open>
  \<open>async_set_temperature\<close>: the argument is \<open>kwargs.get(ATTR_TEMPERATURE)\<close>, a number or
  \<open>None\<close> (on which \<open>int\<close> raises).
\<close>

definition async_set_temperature :: "transport \<Rightarrow> rat option \<Rightarrow> entity \<Rightarrow> error option \<times> entity" where
  "async_set_temperature t arg s =
     (case arg of
        None \<Rightarrow> (Some TypeError, s)
      | Some x \<Rightarrow>
          (let temperature = py_int x;
               temp = py_round (of_int temperature);
               temp_byte = (py_int (of_int (temp - 60) / 9) + (temp - 66)) + 0x26
           in send_command t [PyInt 0x03, PyInt temp_byte] s))"

definition async_set_hvac_mode ::
  "(string \<rightharpoonup> int) \<Rightarrow> transport \<Rightarrow> string \<Rightarrow> entity \<Rightarrow> error option \<times> entity" where
  "async_set_hvac_mode BEDJET_COMMANDS t mode_name s =
     (case HVACMode_of_value mode_name of
        Inl e \<Rightarrow> (Some e, s)
      | Inr m \<Rightarrow>
          (case set_mode t (HVACMode_command BEDJET_COMMANDS m) s of
             (Some e, s1) \<Rightarrow> (Some e, s1)
           | (None, s1) \<Rightarrow> set_time t 600 s1))"

definition async_set_preset_mode ::
  "(string \<rightharpoonup> int) \<Rightarrow> transport \<Rightarrow> string \<Rightarrow> entity \<Rightarrow> error option \<times> entity" where
  "async_set_preset_mode BEDJET_COMMANDS t mode_name s =
     (case PresetMode_of_value mode_name of
        Inl e \<Rightarrow> (Some e, s)
      | Inr m \<Rightarrow> set_mode t (PresetMode_command BEDJET_COMMANDS m) s)"

subsection \<open>The decoding rules as the specification words them\<close>

text \<open>
  The temperature formula of the specification, with its division read as integer
  division: \<open>((b - 0x26) + 66) - integerDivide(b - 0x26, 9)\<close>. The value is an integer,
  so rounding it changes nothing.
\<close>

definition spec_temperature :: "int \<Rightarrow> int" where
  "spec_temperature b = ((b - 0x26) + 66) - (b - 0x26) div 9"

text \<open>
  The discriminator table of the specification: \<open>payload[14]\<close> selects the preset, the
  byte \<open>0x50\<close> being told apart by \<open>payload[13]\<close>; no entry means no preset.
\<close>

definition spec_preset :: "int \<Rightarrow> int \<Rightarrow> PresetMode option" where
  "spec_preset b13 b14 =
     (if b14 = 0x34 then Some Preset_cool
      else if b14 = 0x56 then Some Preset_turbo
      else if b14 = 0x3e then Some Preset_dry
      else if b14 = 0x43 then Some Preset_ext_ht
      else if b14 = 0x20 then Some Preset_m1
      else if b14 = 0x21 then Some Preset_m2
      else if b14 = 0x22 then Some Preset_m3
      else if b14 = 0x50 then
        (if b13 = 0x14 then Some Preset_off
         else if b13 = 0x2d then Some Preset_heat
         else None)
      else None)"

section \<open>Theorems\<close>

subsection \<open>Rounding and truncation\<close>

lemma py_round_nearest:
  assumes "\<bar>of_int n - x\<bar> < 1 / 2"
  shows "py_round x = n"
proof (cases "of_int n \<le> x")
  case True
  with assms have "\<lfloor>x\<rfloor> = n" by (simp add: floor_eq_iff; linarith)
  moreover from assms True have "x - of_int n < 1 / 2" by linarith
  ultimately show ?thesis by (simp add: py_round_def)
next
  case False
  with assms have f: "\<lfloor>x\<rfloor> = n - 1" by (simp add: floor_eq_iff; linarith)
  from assms False have "1 / 2 < x - of_int (n - 1)" by (simp; linarith)
  with f show ?thesis by (simp add: py_round_def Let_def)
qed

lemma py_round_of_int: "py_round (of_int n) = n"
  by (rule py_round_nearest) simp

lemma temperature_of_byte_nearest:
  "\<bar>of_int (((b - 0x26) + 66) - (b - 0x26) div 9 - (if 5 \<le> (b - 0x26) mod 9 then 1 else 0))
     - ((of_int ((b - 0x26) + 66) :: rat) - of_int (b - 0x26) / 9)\<bar> < 1 / 2"
proof -
  define d where "d = b - 0x26"
  define q where "q = d div 9"
  define r where "r = d mod 9"
  have d: "d = 9 * q + r" and r: "0 \<le> r" "r < 9"
    by (simp_all add: q_def r_def)
  have x: "(of_int (d + 66) :: rat) - of_int d / 9 = of_int (d + 66 - q) - of_int r / 9"
    by (simp add: d field_simps)
  have "\<bar>of_int (d + 66 - q - (if 5 \<le> r then 1 else 0))
          - ((of_int (d + 66 - q) :: rat) - of_int r / 9)\<bar> < 1 / 2"
    using r by (auto simp: field_simps abs_less_iff)
  then show ?thesis
    unfolding x [symmetric] by (simp add: d_def q_def r_def)
qed

lemma temperature_of_byte_int:
  "temperature_of_byte b =
     ((b - 0x26) + 66) - (b - 0x26) div 9 - (if 5 \<le> (b - 0x26) mod 9 then 1 else 0)"
  unfolding temperature_of_byte_def
  by (rule py_round_nearest) (rule temperature_of_byte_nearest)

lemma py_int_div9: "py_int (of_int a / 9) = a sdiv 9"
proof (cases "0 \<le> a")
  case True
  have "\<lfloor>(of_int a :: rat) / of_int 9\<rfloor> = a div 9" by (rule floor_divide_of_int_eq)
  with True show ?thesis by (simp add: py_int_def signed_divide_int_def sgn_if)
next
  case False
  then have neg: "\<not> 0 \<le> (of_int a :: rat) / 9" by simp
  have "\<lfloor>(of_int (- a) :: rat) / of_int 9\<rfloor> = (- a) div 9" by (rule floor_divide_of_int_eq)
  then have "\<lceil>(of_int a :: rat) / 9\<rceil> = - ((- a) div 9)" by (simp add: ceiling_def)
  with False neg show ?thesis by (simp add: py_int_def signed_divide_int_def sgn_if)
qed

lemma py_int_of_int: "py_int (of_int n) = n"
  by (simp add: py_int_def)

lemma py_round_div5: "py_round (of_int p / 5) = (p + 2) div 5"
proof -
  define q where "q = p div 5"
  define r where "r = p mod 5"
  have p: "p = 5 * q + r" and r: "0 \<le> r" "r < 5"
    by (simp_all add: q_def r_def)
  have e: "(p + 2) div 5 = q + (if 3 \<le> r then 1 else 0)"
    using r by (auto simp: p)
  have "\<bar>of_int (q + (if 3 \<le> r then 1 else 0)) - (of_int p :: rat) / 5\<bar> < 1 / 2"
    using r by (auto simp: p field_simps abs_less_iff)
  then have "py_round (of_int p / 5) = q + (if 3 \<le> r then 1 else 0)"
    by (rule py_round_nearest)
  with e show ?thesis by simp
qed

subsection \<open>Reading the payload\<close>

lemma getitem_in: "i < length v \<Longrightarrow> getitem v i = Inr (uint (v ! i))"
  by (simp add: getitem_def)

lemma getitem_out: "length v \<le> i \<Longrightarrow> getitem v i = Inl IndexError"
  by (simp add: getitem_def)

lemma bind_err_simps:
  "bind_err (Inl e) f = Inl e" "bind_err (Inr x) f = f x"
  by (simp_all add: bind_err_def)

lemma get_preset_mode_table:
  assumes "15 \<le> length v"
  shows "get_preset_mode v = Inr (spec_preset (uint (v ! 13)) (uint (v ! 14)))"
proof -
  from assms have "getitem v 14 = Inr (uint (v ! 14))" "getitem v 13 = Inr (uint (v ! 13))"
    by (simp_all add: getitem_in)
  then show ?thesis
    by (simp add: get_preset_mode_def byte14_is_def byte14_and_13_are_def bind_err_simps
        spec_preset_def)
qed

lemma get_preset_mode_short:
  assumes "length v \<le> 14"
  shows "get_preset_mode v = Inl IndexError"
  using assms
  by (simp add: get_preset_mode_def byte14_is_def byte14_and_13_are_def bind_err_simps getitem_out)

lemma get_hvac_mode_short:
  "length v \<le> 14 \<Longrightarrow> get_hvac_mode v = Inl IndexError"
  by (simp add: get_hvac_mode_def get_preset_mode_short bind_err_simps)

lemma get_hvac_mode_none:
  "get_preset_mode v = Inr None \<Longrightarrow> get_hvac_mode v = Inl AttributeError"
  by (simp add: get_hvac_mode_def bind_err_simps)

lemma get_hvac_mode_some:
  "get_preset_mode v = Inr (Some p) \<Longrightarrow> get_hvac_mode v = Inr (to_hvac p)"
  by (simp add: get_hvac_mode_def bind_err_simps)

lemma get_current_temperature_in:
  "8 \<le> length v \<Longrightarrow> get_current_temperature v = Inr (temperature_of_byte (uint (v ! 7)))"
  by (simp add: get_current_temperature_def getitem_in bind_err_simps)

lemma get_current_temperature_out:
  "length v \<le> 7 \<Longrightarrow> get_current_temperature v = Inl IndexError"
  by (simp add: get_current_temperature_def getitem_out bind_err_simps)

lemma get_target_temperature_in:
  "9 \<le> length v \<Longrightarrow> get_target_temperature v = Inr (temperature_of_byte (uint (v ! 8)))"
  by (simp add: get_target_temperature_def getitem_in bind_err_simps)

lemma get_target_temperature_out:
  "length v \<le> 8 \<Longrightarrow> get_target_temperature v = Inl IndexError"
  by (simp add: get_target_temperature_def getitem_out bind_err_simps)

lemma get_time_in:
  "7 \<le> length v \<Longrightarrow>
   get_time v = Inr (uint (v ! 4) * 60 * 60 + uint (v ! 5) * 60 + uint (v ! 6))"
  by (simp add: get_time_def getitem_in bind_err_simps)

lemma get_timestring_in:
  "7 \<le> length v \<Longrightarrow>
   get_timestring v =
     Inr (str_int (uint (v ! 4)) @ '':'' @ str_int (uint (v ! 5)) @ '':'' @ str_int (uint (v ! 6)))"
  by (simp add: get_timestring_def getitem_in bind_err_simps)

lemma get_fan_pct_in:
  "11 \<le> length v \<Longrightarrow> get_fan_pct v = Inr (uint (v ! 10) * 5)"
  by (simp add: get_fan_pct_def getitem_in bind_err_simps)

lemma get_fan_pct_out:
  "length v \<le> 10 \<Longrightarrow> get_fan_pct v = Inl IndexError"
  by (simp add: get_fan_pct_def getitem_out bind_err_simps)

lemma handle_data_ok:
  assumes "15 \<le> length v" and "get_preset_mode v = Inr (Some p)"
  shows "handle_data now v s =
     (None, s\<lparr>current_temperature := Some (temperature_of_byte (uint (v ! 7))),
              target_temperature := Some (temperature_of_byte (uint (v ! 8))),
              time := Some (uint (v ! 4) * 60 * 60 + uint (v ! 5) * 60 + uint (v ! 6)),
              timestring := Some (str_int (uint (v ! 4)) @ '':'' @ str_int (uint (v ! 5))
                                  @ '':'' @ str_int (uint (v ! 6))),
              fan_pct := Some (uint (v ! 10) * 5),
              hvac_mode := to_hvac p,
              preset_mode := Some p,
              last_seen := Some now,
              trace := trace s @ [Ev_schedule_update_ha_state]\<rparr>)"
  using assms
  by (simp add: handle_data_def get_current_temperature_in get_target_temperature_in
      get_time_in get_timestring_in get_fan_pct_in get_hvac_mode_some
      schedule_update_ha_state_def)

lemma handle_data_unmatched:
  assumes "15 \<le> length v" and "get_preset_mode v = Inr None"
  shows "handle_data now v s =
     (Some AttributeError,
      s\<lparr>current_temperature := Some (temperature_of_byte (uint (v ! 7))),
        target_temperature := Some (temperature_of_byte (uint (v ! 8))),
        time := Some (uint (v ! 4) * 60 * 60 + uint (v ! 5) * 60 + uint (v ! 6)),
        timestring := Some (str_int (uint (v ! 4)) @ '':'' @ str_int (uint (v ! 5))
                            @ '':'' @ str_int (uint (v ! 6))),
        fan_pct := Some (uint (v ! 10) * 5)\<rparr>)"
  using assms
  by (simp add: handle_data_def get_current_temperature_in get_target_temperature_in
      get_time_in get_timestring_in get_fan_pct_in get_hvac_mode_none)

lemma handle_data_len_le7:
  assumes "length v \<le> 7"
  shows "handle_data now v s = (Some IndexError, s)"
  using assms by (simp add: handle_data_def get_current_temperature_out)

lemma handle_data_len_8:
  assumes "length v = 8"
  shows "handle_data now v s =
     (Some IndexError, s\<lparr>current_temperature := Some (temperature_of_byte (uint (v ! 7)))\<rparr>)"
  using assms
  by (simp add: handle_data_def get_current_temperature_in get_target_temperature_out)

lemma handle_data_len_9_10:
  assumes "9 \<le> length v" and "length v \<le> 10"
  shows "handle_data now v s =
     (Some IndexError,
      s\<lparr>current_temperature := Some (temperature_of_byte (uint (v ! 7))),
        target_temperature := Some (temperature_of_byte (uint (v ! 8))),
        time := Some (uint (v ! 4) * 60 * 60 + uint (v ! 5) * 60 + uint (v ! 6)),
        timestring := Some (str_int (uint (v ! 4)) @ '':'' @ str_int (uint (v ! 5))
                            @ '':'' @ str_int (uint (v ! 6)))\<rparr>)"
  using assms
  by (simp add: handle_data_def get_current_temperature_in get_target_temperature_in
      get_time_in get_timestring_in get_fan_pct_out)

lemma handle_data_len_11_14:
  assumes "11 \<le> length v" and "length v \<le> 14"
  shows "handle_data now v s =
     (Some IndexError,
      s\<lparr>current_temperature := Some (temperature_of_byte (uint (v ! 7))),
        target_temperature := Some (temperature_of_byte (uint (v ! 8))),
        time := Some (uint (v ! 4) * 60 * 60 + uint (v ! 5) * 60 + uint (v ! 6)),
        timestring := Some (str_int (uint (v ! 4)) @ '':'' @ str_int (uint (v ! 5))
                            @ '':'' @ str_int (uint (v ! 6))),
        fan_pct := Some (uint (v ! 10) * 5)\<rparr>)"
  using assms
  by (simp add: handle_data_def get_current_temperature_in get_target_temperature_in
      get_time_in get_timestring_in get_fan_pct_in get_hvac_mode_short)

subsection \<open>The claims\<close>

text \<open>
  C1. The claim: the projection of a preset to an operating mode is total over all nine
  presets and never gives \<open>None\<close>. On the code, \<open>to_hvac\<close> has entries for six presets
  only: the three memory presets are missing from its dictionary and project to \<open>None\<close>,
  although the method is declared to return an \<open>HVACMode\<close>. The six presets that have an
  entry project as the claim says (Turbo and ExtendedHeat to Heat).
\<close>

theorem to_hvac_memory_presets_none:
  "to_hvac Preset_m1 = None \<and> to_hvac Preset_m2 = None \<and> to_hvac Preset_m3 = None
   \<and> to_hvac Preset_off = Some HVAC_off \<and> to_hvac Preset_cool = Some HVAC_cool
   \<and> to_hvac Preset_heat = Some HVAC_heat \<and> to_hvac Preset_dry = Some HVAC_dry
   \<and> to_hvac Preset_turbo = Some HVAC_heat \<and> to_hvac Preset_ext_ht = Some HVAC_heat
   \<and> length PresetMode_members = 9"
  by (simp add: to_hvac_def PresetMode_members_def)

lemma get_preset_mode_cases:
  assumes "15 \<le> length v"
  obtains "get_preset_mode v = Inr None" | p where "get_preset_mode v = Inr (Some p)"
  using get_preset_mode_table [OF assms] by (cases "spec_preset (uint (v ! 13)) (uint (v ! 14))") auto

lemma handle_data_temperatures:
  assumes "15 \<le> length v"
  shows "current_temperature (snd (handle_data now v s)) = Some (temperature_of_byte (uint (v ! 7)))"
    and "target_temperature (snd (handle_data now v s)) = Some (temperature_of_byte (uint (v ! 8)))"
  using assms
  by (rule get_preset_mode_cases; simp add: handle_data_ok handle_data_unmatched assms)+

text \<open>
  C3 (as amended). For every payload of at least 15 bytes the decoded current temperature
  is the integer nearest to \<open>((payload[7] - 0x26) + 66) - (payload[7] - 0x26) / 9\<close>, the
  division being exact: it is the value of the specification's formula with integer
  division, less one when the remainder of \<open>payload[7] - 0x26\<close> by 9 is 5 or more. The
  decoded target temperature is the same function of \<open>payload[8]\<close>. Both are what
  \<open>handle_data\<close> stores.
\<close>

theorem decoded_temperature_nearest:
  assumes "15 \<le> length v"
  shows "get_current_temperature v =
           Inr (spec_temperature (uint (v ! 7)) - (if 5 \<le> (uint (v ! 7) - 0x26) mod 9 then 1 else 0))
       \<and> get_target_temperature v =
           Inr (spec_temperature (uint (v ! 8)) - (if 5 \<le> (uint (v ! 8) - 0x26) mod 9 then 1 else 0))
       \<and> current_temperature (snd (handle_data now v s)) =
           Some (spec_temperature (uint (v ! 7)) - (if 5 \<le> (uint (v ! 7) - 0x26) mod 9 then 1 else 0))
       \<and> target_temperature (snd (handle_data now v s)) =
           Some (spec_temperature (uint (v ! 8)) - (if 5 \<le> (uint (v ! 8) - 0x26) mod 9 then 1 else 0))
       \<and> \<bar>of_int (spec_temperature (uint (v ! 7)) - (if 5 \<le> (uint (v ! 7) - 0x26) mod 9 then 1 else 0))
            - ((of_int ((uint (v ! 7) - 0x26) + 66) :: rat) - of_int (uint (v ! 7) - 0x26) / 9)\<bar> < 1 / 2
       \<and> \<bar>of_int (spec_temperature (uint (v ! 8)) - (if 5 \<le> (uint (v ! 8) - 0x26) mod 9 then 1 else 0))
            - ((of_int ((uint (v ! 8) - 0x26) + 66) :: rat) - of_int (uint (v ! 8) - 0x26) / 9)\<bar> < 1 / 2"
proof -
  have t: "temperature_of_byte b = spec_temperature b - (if 5 \<le> (b - 0x26) mod 9 then 1 else 0)" for b
    by (simp only: temperature_of_byte_int spec_temperature_def)
  have n: "\<bar>of_int (spec_temperature b - (if 5 \<le> (b - 0x26) mod 9 then 1 else 0))
            - ((of_int ((b - 0x26) + 66) :: rat) - of_int (b - 0x26) / 9)\<bar> < 1 / 2" for b
    unfolding spec_temperature_def by (rule temperature_of_byte_nearest)
  from assms have "get_current_temperature v = Inr (temperature_of_byte (uint (v ! 7)))"
    and "get_target_temperature v = Inr (temperature_of_byte (uint (v ! 8)))"
    by (simp_all add: get_current_temperature_in get_target_temperature_in)
  with handle_data_temperatures [OF assms, of now s] n [of "uint (v ! 7)"] n [of "uint (v ! 8)"]
  show ?thesis by (simp only: t simp_thms)
qed

theorem decoded_temperature_nearest_witness:
  "15 \<le> length [0, 0, 0, 0, 1, 30, 15, 43, 56, 0, 10, 0, 0, 0x14, 0x50 :: byte]
   \<and> get_current_temperature [0, 0, 0, 0, 1, 30, 15, 43, 56, 0, 10, 0, 0, 0x14, 0x50] = Inr 70
   \<and> get_target_temperature [0, 0, 0, 0, 1, 30, 15, 43, 56, 0, 10, 0, 0, 0x14, 0x50] = Inr 82"
  using decoded_temperature_nearest [of "[0, 0, 0, 0, 1, 30, 15, 43, 56, 0, 10, 0, 0, 0x14, 0x50]"]
  by (simp add: spec_temperature_def)

text \<open>
  C3 as the claim words it (the division an integer division) fails: the byte 43 decodes
  to 70, the claimed formula gives 71.
\<close>

theorem decoded_temperature_counterexample:
  "15 \<le> length [0, 0, 0, 0, 1, 30, 15, 43, 56, 0, 10, 0, 0, 0x14, 0x50 :: byte]
   \<and> get_current_temperature [0, 0, 0, 0, 1, 30, 15, 43, 56, 0, 10, 0, 0, 0x14, 0x50] = Inr 70
   \<and> spec_temperature (uint ([0, 0, 0, 0, 1, 30, 15, 43, 56, 0, 10, 0, 0, 0x14, 0x50 :: byte] ! 7)) = 71
   \<and> get_current_temperature [0, 0, 0, 0, 1, 30, 15, 43, 56, 0, 10, 0, 0, 0x14, 0x50]
       \<noteq> Inr (spec_temperature
                (uint ([0, 0, 0, 0, 1, 30, 15, 43, 56, 0, 10, 0, 0, 0x14, 0x50 :: byte] ! 7)))"
  by (simp add: get_current_temperature_in temperature_of_byte_int spec_temperature_def)

text \<open>
  C4. For every payload of at least 15 bytes the decoded preset is the entry of the
  discriminator table for \<open>payload[13]\<close> and \<open>payload[14]\<close>. Where the table has no
  entry, \<open>get_preset_mode\<close> gives no preset, \<open>handle_data\<close> ends in an exception and
  the stored preset and operating mode stay as they were: no mode is made up. Where it
  has one, \<open>handle_data\<close> stores that preset.
\<close>

theorem get_preset_mode_discriminators:
  assumes "15 \<le> length v"
  shows "get_preset_mode v = Inr (spec_preset (uint (v ! 13)) (uint (v ! 14)))
       \<and> (spec_preset (uint (v ! 13)) (uint (v ! 14)) = None \<longrightarrow>
            fst (handle_data now v s) = Some AttributeError
            \<and> preset_mode (snd (handle_data now v s)) = preset_mode s
            \<and> hvac_mode (snd (handle_data now v s)) = hvac_mode s)
       \<and> (\<forall>p. spec_preset (uint (v ! 13)) (uint (v ! 14)) = Some p \<longrightarrow>
            fst (handle_data now v s) = None
            \<and> preset_mode (snd (handle_data now v s)) = Some p)"
  using get_preset_mode_table [OF assms]
  by (auto simp: handle_data_ok handle_data_unmatched assms)

theorem get_preset_mode_discriminators_witness:
  "15 \<le> length [0, 0, 0, 0, 1, 30, 15, 43, 56, 0, 10, 0, 0, 0x2d, 0x50 :: byte]
   \<and> get_preset_mode [0, 0, 0, 0, 1, 30, 15, 43, 56, 0, 10, 0, 0, 0x2d, 0x50] = Inr (Some Preset_heat)
   \<and> preset_mode (snd (handle_data 200 [0, 0, 0, 0, 1, 30, 15, 43, 56, 0, 10, 0, 0, 0x2d, 0x50]
        (init ''F0:0D''))) = Some Preset_heat
   \<and> 15 \<le> length [0, 0, 0, 0, 1, 30, 15, 43, 56, 0, 10, 0, 0, 0x15, 0x50 :: byte]
   \<and> get_preset_mode [0, 0, 0, 0, 1, 30, 15, 43, 56, 0, 10, 0, 0, 0x15, 0x50] = Inr None
   \<and> fst (handle_data 200 [0, 0, 0, 0, 1, 30, 15, 43, 56, 0, 10, 0, 0, 0x15, 0x50]
        (init ''F0:0D'')) = Some AttributeError
   \<and> preset_mode (snd (handle_data 200 [0, 0, 0, 0, 1, 30, 15, 43, 56, 0, 10, 0, 0, 0x15, 0x50]
        (init ''F0:0D''))) = preset_mode (init ''F0:0D'')"
  using get_preset_mode_discriminators
          [of "[0, 0, 0, 0, 1, 30, 15, 43, 56, 0, 10, 0, 0, 0x2d, 0x50]" 200 "init ''F0:0D''"]
        get_preset_mode_discriminators
          [of "[0, 0, 0, 0, 1, 30, 15, 43, 56, 0, 10, 0, 0, 0x15, 0x50]" 200 "init ''F0:0D''"]
  by (simp add: spec_preset_def)

text \<open>
  C2 (as amended). \<open>handle_data\<close> assigns the status fields one after the other, in the
  order current temperature, target temperature, time, timestring, fan percent, operating
  mode, preset mode, last-seen, and stops at the first read that raises. A payload of at
  least 15 bytes whose discriminator bytes select a preset replaces every field from that
  one payload. A payload of at most 7 bytes (of 5 bytes, say) changes nothing. Any other
  payload ends in an exception with the fields assigned so far replaced and the others as
  they were: the current temperature for 8 bytes; both temperatures, time and timestring
  for 9 or 10 bytes; these and the fan percent for 11 to 14 bytes, and for 15 bytes or
  more whose discriminator bytes select no preset.
\<close>

theorem handle_data_stepwise:
  "(15 \<le> length v \<and> get_preset_mode v = Inr (Some p) \<longrightarrow>
      handle_data now v s =
        (None, s\<lparr>current_temperature := Some (temperature_of_byte (uint (v ! 7))),
                 target_temperature := Some (temperature_of_byte (uint (v ! 8))),
                 time := Some (uint (v ! 4) * 60 * 60 + uint (v ! 5) * 60 + uint (v ! 6)),
                 timestring := Some (str_int (uint (v ! 4)) @ '':'' @ str_int (uint (v ! 5))
                                     @ '':'' @ str_int (uint (v ! 6))),
                 fan_pct := Some (uint (v ! 10) * 5),
                 hvac_mode := to_hvac p,
                 preset_mode := Some p,
                 last_seen := Some now,
                 trace := trace s @ [Ev_schedule_update_ha_state]\<rparr>))
   \<and> (length v \<le> 7 \<longrightarrow> handle_data now v s = (Some IndexError, s))
   \<and> (length v = 8 \<longrightarrow>
        handle_data now v s =
          (Some IndexError, s\<lparr>current_temperature := Some (temperature_of_byte (uint (v ! 7)))\<rparr>))
   \<and> (9 \<le> length v \<and> length v \<le> 10 \<longrightarrow>
        handle_data now v s =
          (Some IndexError,
           s\<lparr>current_temperature := Some (temperature_of_byte (uint (v ! 7))),
             target_temperature := Some (temperature_of_byte (uint (v ! 8))),
             time := Some (uint (v ! 4) * 60 * 60 + uint (v ! 5) * 60 + uint (v ! 6)),
             timestring := Some (str_int (uint (v ! 4)) @ '':'' @ str_int (uint (v ! 5))
                                 @ '':'' @ str_int (uint (v ! 6)))\<rparr>))
   \<and> (11 \<le> length v \<and> length v \<le> 14 \<longrightarrow>
        handle_data now v s =
          (Some IndexError,
           s\<lparr>current_temperature := Some (temperature_of_byte (uint (v ! 7))),
             target_temperature := Some (temperature_of_byte (uint (v ! 8))),
             time := Some (uint (v ! 4) * 60 * 60 + uint (v ! 5) * 60 + uint (v ! 6)),
             timestring := Some (str_int (uint (v ! 4)) @ '':'' @ str_int (uint (v ! 5))
                                 @ '':'' @ str_int (uint (v ! 6))),
             fan_pct := Some (uint (v ! 10) * 5)\<rparr>))
   \<and> (15 \<le> length v \<and> get_preset_mode v = Inr None \<longrightarrow>
        handle_data now v s =
          (Some AttributeError,
           s\<lparr>current_temperature := Some (temperature_of_byte (uint (v ! 7))),
             target_temperature := Some (temperature_of_byte (uint (v ! 8))),
             time := Some (uint (v ! 4) * 60 * 60 + uint (v ! 5) * 60 + uint (v ! 6)),
             timestring := Some (str_int (uint (v ! 4)) @ '':'' @ str_int (uint (v ! 5))
                                 @ '':'' @ str_int (uint (v ! 6))),
             fan_pct := Some (uint (v ! 10) * 5)\<rparr>))"
  using handle_data_ok [of v p now s] handle_data_len_le7 [of v now s]
    handle_data_len_8 [of v now s] handle_data_len_9_10 [of v now s]
    handle_data_len_11_14 [of v now s] handle_data_unmatched [of v now s]
  by blast

theorem handle_data_stepwise_witness:
  "handle_data 200 [0, 0, 0, 0, 1, 30, 15, 43, 56, 0, 10, 0, 0, 0x14, 0x50] (init ''F0:0D'') =
     (None, (init ''F0:0D'')
        \<lparr>current_temperature := Some 70, target_temperature := Some 82, time := Some 5415,
         timestring := Some ''1:30:15'', fan_pct := Some 50, hvac_mode := Some HVAC_off,
         preset_mode := Some Preset_off, last_seen := Some 200,
         trace := [Ev_schedule_update_ha_state]\<rparr>)
   \<and> handle_data 200 [0, 0, 0, 0, 1] (init ''F0:0D'') = (Some IndexError, init ''F0:0D'')
   \<and> handle_data 200 [0, 0, 0, 0, 1, 30, 15, 43] (init ''F0:0D'') =
       (Some IndexError, (init ''F0:0D'')\<lparr>current_temperature := Some 70\<rparr>)
   \<and> handle_data 200 [0, 0, 0, 0, 1, 30, 15, 43, 56, 0] (init ''F0:0D'') =
       (Some IndexError, (init ''F0:0D'')
          \<lparr>current_temperature := Some 70, target_temperature := Some 82, time := Some 5415,
           timestring := Some ''1:30:15''\<rparr>)
   \<and> handle_data 200 [0, 0, 0, 0, 1, 30, 15, 43, 56, 0, 10, 0] (init ''F0:0D'') =
       (Some IndexError, (init ''F0:0D'')
          \<lparr>current_temperature := Some 70, target_temperature := Some 82, time := Some 5415,
           timestring := Some ''1:30:15'', fan_pct := Some 50\<rparr>)
   \<and> handle_data 200 [0, 0, 0, 0, 1, 30, 15, 43, 56, 0, 10, 0, 0, 0, 0] (init ''F0:0D'') =
       (Some AttributeError, (init ''F0:0D'')
          \<lparr>current_temperature := Some 70, target_temperature := Some 82, time := Some 5415,
           timestring := Some ''1:30:15'', fan_pct := Some 50\<rparr>)"
  using handle_data_stepwise
          [of "[0, 0, 0, 0, 1, 30, 15, 43, 56, 0, 10, 0, 0, 0x14, 0x50]" Preset_off 200 "init ''F0:0D''"]
        handle_data_stepwise [of "[0, 0, 0, 0, 1]" Preset_off 200 "init ''F0:0D''"]
        handle_data_stepwise [of "[0, 0, 0, 0, 1, 30, 15, 43]" Preset_off 200 "init ''F0:0D''"]
        handle_data_stepwise [of "[0, 0, 0, 0, 1, 30, 15, 43, 56, 0]" Preset_off 200 "init ''F0:0D''"]
        handle_data_stepwise
          [of "[0, 0, 0, 0, 1, 30, 15, 43, 56, 0, 10, 0]" Preset_off 200 "init ''F0:0D''"]
        handle_data_stepwise
          [of "[0, 0, 0, 0, 1, 30, 15, 43, 56, 0, 10, 0, 0, 0, 0]" Preset_off 200 "init ''F0:0D''"]
  by (simp add: get_preset_mode_table spec_preset_def temperature_of_byte_int to_hvac_def
      str_int_def str_nat.simps digit_char_def init_def)

text \<open>
  C2 as the claim words it fails: a 15-byte payload whose discriminator bytes match no
  preset ends in an exception, yet the current temperature stored before (70) is
  replaced from that payload (74), next to the preset and the last-seen time of the
  notification before.
\<close>

theorem handle_data_counterexample:
  "length [0, 0, 0, 0, 0, 45, 0, 47, 56, 0, 4, 0, 0, 0, 0 :: byte] = 15
   \<and> fst (handle_data 200 [0, 0, 0, 0, 0, 45, 0, 47, 56, 0, 4, 0, 0, 0, 0]
        ((init ''F0:0D'')\<lparr>current_temperature := Some 70, hvac_mode := Some HVAC_cool,
            preset_mode := Some Preset_cool, last_seen := Some 100\<rparr>)) = Some AttributeError
   \<and> current_temperature (snd (handle_data 200 [0, 0, 0, 0, 0, 45, 0, 47, 56, 0, 4, 0, 0, 0, 0]
        ((init ''F0:0D'')\<lparr>current_temperature := Some 70, hvac_mode := Some HVAC_cool,
            preset_mode := Some Preset_cool, last_seen := Some 100\<rparr>))) = Some 74
   \<and> preset_mode (snd (handle_data 200 [0, 0, 0, 0, 0, 45, 0, 47, 56, 0, 4, 0, 0, 0, 0]
        ((init ''F0:0D'')\<lparr>current_temperature := Some 70, hvac_mode := Some HVAC_cool,
            preset_mode := Some Preset_cool, last_seen := Some 100\<rparr>))) = Some Preset_cool
   \<and> last_seen (snd (handle_data 200 [0, 0, 0, 0, 0, 45, 0, 47, 56, 0, 4, 0, 0, 0, 0]
        ((init ''F0:0D'')\<lparr>current_temperature := Some 70, hvac_mode := Some HVAC_cool,
            preset_mode := Some Preset_cool, last_seen := Some 100\<rparr>))) = Some 100"
  by (simp add: handle_data_unmatched get_preset_mode_table spec_preset_def
      temperature_of_byte_int init_def)

lemma get_fan_mode_Some:
  "get_fan_mode (Some p) =
     (if p = 0 \<or> 100 < p then None
      else if p \<le> 10 then Some Fan_min
      else if p \<le> 25 then Some Fan_low
      else if p \<le> 50 then Some Fan_medium
      else if p \<le> 75 then Some Fan_high
      else Some Fan_max)"
  by (simp add: get_fan_mode_def FanMode_members_def)

text \<open>
  C6 (as amended). \<open>get_fan_mode\<close> gives no level for an absent percent, for the percent
  0 and for a percent above 100. Every other percent resolves to the lowest tier whose
  threshold is greater than or equal to it (thresholds 10, 25, 50, 75, 100): 10 gives
  Min, 11 Low, 50 Medium, 75 High, 100 Max.
\<close>

theorem get_fan_mode_lowest_tier:
  "get_fan_mode None = None
   \<and> get_fan_mode (Some 0) = None
   \<and> get_fan_mode (Some 10) = Some Fan_min
   \<and> get_fan_mode (Some 11) = Some Fan_low
   \<and> get_fan_mode (Some 50) = Some Fan_medium
   \<and> get_fan_mode (Some 75) = Some Fan_high
   \<and> get_fan_mode (Some 100) = Some Fan_max
   \<and> (100 < p \<longrightarrow> get_fan_mode (Some p) = None)
   \<and> (p \<noteq> 0 \<and> p \<le> 100 \<longrightarrow>
        (\<exists>m. get_fan_mode (Some p) = Some m \<and> p \<le> FanMode_value m
           \<and> (\<forall>m'. p \<le> FanMode_value m' \<longrightarrow> FanMode_value m \<le> FanMode_value m')))"
proof -
  have fixed: "get_fan_mode None = None" "get_fan_mode (Some 0) = None"
    "get_fan_mode (Some 10) = Some Fan_min" "get_fan_mode (Some 11) = Some Fan_low"
    "get_fan_mode (Some 50) = Some Fan_medium" "get_fan_mode (Some 75) = Some Fan_high"
    "get_fan_mode (Some 100) = Some Fan_max"
    by (simp_all add: get_fan_mode_Some) (simp add: get_fan_mode_def)
  have above: "100 < p \<longrightarrow> get_fan_mode (Some p) = None"
    by (simp add: get_fan_mode_Some)
  have least: "FanMode_value m \<le> FanMode_value m'"
    if "get_fan_mode (Some p) = Some m" "p \<le> FanMode_value m'" for m m'
    using that by (cases m'; simp add: get_fan_mode_Some split: if_splits)
  have bound: "p \<le> FanMode_value m" if "get_fan_mode (Some p) = Some m" for m
    using that by (auto simp: get_fan_mode_Some split: if_splits)
  have ex: "\<exists>m. get_fan_mode (Some p) = Some m" if "p \<noteq> 0" "p \<le> 100"
    using that by (simp add: get_fan_mode_Some)
  have tier: "p \<noteq> 0 \<and> p \<le> 100 \<longrightarrow>
        (\<exists>m. get_fan_mode (Some p) = Some m \<and> p \<le> FanMode_value m
           \<and> (\<forall>m'. p \<le> FanMode_value m' \<longrightarrow> FanMode_value m \<le> FanMode_value m'))"
    using least bound ex by blast
  from fixed above tier show ?thesis by (intro conjI)
qed

theorem get_fan_mode_lowest_tier_witness:
  "(100::int) < 101 \<and> get_fan_mode (Some 101) = None
   \<and> (30::int) \<noteq> 0 \<and> (30::int) \<le> 100 \<and> get_fan_mode (Some 30) = Some Fan_medium
   \<and> get_fan_mode (Some (- 5)) = Some Fan_min"
  using get_fan_mode_lowest_tier [of 101] get_fan_mode_lowest_tier [of 30]
    get_fan_mode_lowest_tier [of "- 5"]
  by (simp add: get_fan_mode_Some)

text \<open>
  C6 as the claim words it fails at the percent 0: the guard \<open>if not fan_pct\<close> returns
  \<open>None\<close> before the tiers are looked at, so 0 does not resolve to Min.
\<close>

theorem get_fan_mode_zero_counterexample:
  "get_fan_mode (Some 0) = None \<and> get_fan_mode (Some 0) \<noteq> Some Fan_min"
  by (simp add: get_fan_mode_def)

lemma send_command_connected:
  "is_connected s \<Longrightarrow>
   send_command t c s =
     (write_outcome t (length (filter is_write (trace s))),
      s\<lparr>trace := trace s @ [Ev_write_gatt_char c]\<rparr>)"
  by (simp add: send_command_def client_write_gatt_char_def)

lemma send_command_disconnected:
  "\<not> is_connected s \<Longrightarrow> send_command t c s = (None, s)"
  by (simp add: send_command_def)

lemma HVACMode_of_value_value: "HVACMode_of_value (HVACMode_value m) = Inr m"
  by (cases m) (simp_all add: HVACMode_of_value_def HVACMode_members_def)

lemma PresetMode_of_value_value: "PresetMode_of_value (PresetMode_value m) = Inr m"
  by (cases m) (simp_all add: PresetMode_of_value_def PresetMode_members_def)

lemma temp_byte_int:
  "(py_int (of_int (py_round (of_int (py_int (of_int temp))) - 60) / 9)
     + (py_round (of_int (py_int (of_int temp))) - 66)) + 0x26
   = (temp - 60) sdiv 9 + (temp - 66) + 0x26"
  by (simp only: py_int_of_int py_round_of_int py_int_div9)

lemma sdiv_nonneg: "(0::int) \<le> a \<Longrightarrow> a sdiv 9 = a div 9"
  by (simp add: signed_divide_int_def sgn_if)

text \<open>
  C5. On a connected entity each command operation writes exactly one list that depends
  on the request alone: \<open>[0x01, mode]\<close> for a mode (the preset's command byte for
  \<open>async_set_preset_mode\<close>), \<open>[0x02, minutes div 60, minutes mod 60]\<close> for the timer,
  \<open>[0x03, integerDivide(temp - 60, 9) + (temp - 66) + 0x26]\<close> for a temperature (the
  division truncating, which is the floor from 60 degrees on; 72 degrees give
  \<open>0x26 + (72 - 66) + floor((72 - 60) / 9)\<close>; temperatures up to \<open>2\<^sup>5\<^sup>3\<close> in magnitude,
  which a float holds exactly), and \<open>[0x07, round(percent / 5) - 1]\<close> for a fan percent
  between 0 and 100. Setting an operating mode writes the mode and then the timer of 600
  minutes, \<open>[0x02, 10, 0]\<close>.
\<close>

theorem command_encoding:
  assumes "is_connected s"
  shows "set_mode t m s =
           (write_outcome t (length (filter is_write (trace s))),
            s\<lparr>trace := trace s @ [Ev_write_gatt_char [PyInt 0x01, m]]\<rparr>)
       \<and> async_set_preset_mode cmds t (PresetMode_value pm) s =
           (write_outcome t (length (filter is_write (trace s))),
            s\<lparr>trace := trace s @ [Ev_write_gatt_char [PyInt 0x01, PresetMode_command cmds pm]]\<rparr>)
       \<and> set_time t minutes s =
           (write_outcome t (length (filter is_write (trace s))),
            s\<lparr>trace := trace s @
               [Ev_write_gatt_char [PyInt 0x02, PyInt (minutes div 60), PyInt (minutes mod 60)]]\<rparr>)
       \<and> (\<bar>temp\<bar> \<le> 2 ^ 53 \<longrightarrow>
            async_set_temperature t (Some (of_int temp)) s =
              (write_outcome t (length (filter is_write (trace s))),
               s\<lparr>trace := trace s @
                  [Ev_write_gatt_char [PyInt 0x03, PyInt ((temp - 60) sdiv 9 + (temp - 66) + 0x26)]]\<rparr>))
       \<and> (60 \<le> temp \<longrightarrow> (temp - 60) sdiv 9 = (temp - 60) div 9)
       \<and> async_set_temperature t (Some 72) s =
           (write_outcome t (length (filter is_write (trace s))),
            s\<lparr>trace := trace s @
               [Ev_write_gatt_char [PyInt 0x03, PyInt (0x26 + (72 - 66) + (72 - 60) div 9)]]\<rparr>)
       \<and> (0 \<le> p \<and> p \<le> 100 \<longrightarrow>
            async_set_fan_mode t (Fan_int p) s =
              (write_outcome t (length (filter is_write (trace s))),
               s\<lparr>trace := trace s @
                  [Ev_write_gatt_char [PyInt 0x07, PyInt (py_round (of_int p / 5) - 1)]]\<rparr>)
            \<and> py_round (of_int p / 5) = (p + 2) div 5)
       \<and> (write_outcome t (length (filter is_write (trace s))) = None \<longrightarrow>
            async_set_hvac_mode cmds t (HVACMode_value hm) s =
              (write_outcome t (Suc (length (filter is_write (trace s)))),
               s\<lparr>trace := trace s @
                  [Ev_write_gatt_char [PyInt 0x01, HVACMode_command cmds hm],
                   Ev_write_gatt_char [PyInt 0x02, PyInt 10, PyInt 0]]\<rparr>))"
proof -
  have mode: "set_mode t m s =
           (write_outcome t (length (filter is_write (trace s))),
            s\<lparr>trace := trace s @ [Ev_write_gatt_char [PyInt 0x01, m]]\<rparr>)" for m
    using assms by (simp add: set_mode_def send_command_connected)
  have preset: "async_set_preset_mode cmds t (PresetMode_value pm) s =
           (write_outcome t (length (filter is_write (trace s))),
            s\<lparr>trace := trace s @ [Ev_write_gatt_char [PyInt 0x01, PresetMode_command cmds pm]]\<rparr>)"
    by (simp add: async_set_preset_mode_def PresetMode_of_value_value mode)
  have time: "set_time t minutes s =
           (write_outcome t (length (filter is_write (trace s))),
            s\<lparr>trace := trace s @
               [Ev_write_gatt_char [PyInt 0x02, PyInt (minutes div 60), PyInt (minutes mod 60)]]\<rparr>)"
    using assms by (simp add: set_time_def send_command_connected)
  have temp: "async_set_temperature t (Some (of_int k)) s =
           (write_outcome t (length (filter is_write (trace s))),
            s\<lparr>trace := trace s @
               [Ev_write_gatt_char [PyInt 0x03, PyInt ((k - 60) sdiv 9 + (k - 66) + 0x26)]]\<rparr>)" for k
    using assms
    by (simp only: async_set_temperature_def option.case Let_def temp_byte_int
        send_command_connected)
  have floor: "60 \<le> temp \<longrightarrow> (temp - 60) sdiv 9 = (temp - 60) div 9"
    by (simp add: sdiv_nonneg)
  have t72: "async_set_temperature t (Some 72) s =
           (write_outcome t (length (filter is_write (trace s))),
            s\<lparr>trace := trace s @
               [Ev_write_gatt_char [PyInt 0x03, PyInt (0x26 + (72 - 66) + (72 - 60) div 9)]]\<rparr>)"
    using temp [of 72] by (simp add: sdiv_nonneg)
  have fan: "0 \<le> p \<and> p \<le> 100 \<longrightarrow>
            async_set_fan_mode t (Fan_int p) s =
              (write_outcome t (length (filter is_write (trace s))),
               s\<lparr>trace := trace s @
                  [Ev_write_gatt_char [PyInt 0x07, PyInt (py_round (of_int p / 5) - 1)]]\<rparr>)
            \<and> py_round (of_int p / 5) = (p + 2) div 5"
    using assms
    by (simp add: async_set_fan_mode_def resolve_fan_pct_def send_command_connected py_round_div5)
  have hvac: "write_outcome t (length (filter is_write (trace s))) = None \<longrightarrow>
            async_set_hvac_mode cmds t (HVACMode_value hm) s =
              (write_outcome t (Suc (length (filter is_write (trace s)))),
               s\<lparr>trace := trace s @
                  [Ev_write_gatt_char [PyInt 0x01, HVACMode_command cmds hm],
                   Ev_write_gatt_char [PyInt 0x02, PyInt 10, PyInt 0]]\<rparr>)"
    using assms
    by (simp add: async_set_hvac_mode_def HVACMode_of_value_value mode set_time_def
        send_command_connected is_write_def)
  from mode preset time temp floor t72 fan hvac show ?thesis by (intro conjI) simp_all
qed

theorem command_encoding_witness:
  "is_connected ((init ''F0:0D'')\<lparr>is_connected := True\<rparr>)
   \<and> \<bar>72 :: int\<bar> \<le> 2 ^ 53 \<and> (60 :: int) \<le> 72 \<and> (0 :: int) \<le> 50 \<and> (50 :: int) \<le> 100
   \<and> async_set_temperature
         \<lparr>connect_outcome = \<lambda>k. (None, True), disconnect_outcome = \<lambda>k. (None, False),
          write_outcome = \<lambda>k. None\<rparr>
         (Some (of_int 72)) ((init ''F0:0D'')\<lparr>is_connected := True\<rparr>) =
       (None, (init ''F0:0D'')\<lparr>is_connected := True,
                 trace := [Ev_write_gatt_char [PyInt 3, PyInt 45]]\<rparr>)
   \<and> async_set_fan_mode
         \<lparr>connect_outcome = \<lambda>k. (None, True), disconnect_outcome = \<lambda>k. (None, False),
          write_outcome = \<lambda>k. None\<rparr>
         (Fan_int 50) ((init ''F0:0D'')\<lparr>is_connected := True\<rparr>) =
       (None, (init ''F0:0D'')\<lparr>is_connected := True,
                 trace := [Ev_write_gatt_char [PyInt 7, PyInt 9]]\<rparr>)
   \<and> async_set_hvac_mode [''heat'' \<mapsto> 3]
         \<lparr>connect_outcome = \<lambda>k. (None, True), disconnect_outcome = \<lambda>k. (None, False),
          write_outcome = \<lambda>k. None\<rparr>
         ''heat'' ((init ''F0:0D'')\<lparr>is_connected := True\<rparr>) =
       (None, (init ''F0:0D'')\<lparr>is_connected := True,
                 trace := [Ev_write_gatt_char [PyInt 1, PyInt 3],
                           Ev_write_gatt_char [PyInt 2, PyInt 10, PyInt 0]]\<rparr>)"
  using command_encoding
          [of "(init ''F0:0D'')\<lparr>is_connected := True\<rparr>"
              "\<lparr>connect_outcome = \<lambda>k. (None, True), disconnect_outcome = \<lambda>k. (None, False),
                write_outcome = \<lambda>k. None\<rparr>"
              "PyInt 3" "[''heat'' \<mapsto> 3]" Preset_heat 600 72 50 HVAC_heat]
  by (simp add: init_def HVACMode_command_def signed_divide_int_def)

text \<open>
  C9. On an entity that is not connected every command operation leaves the entity as it
  was: nothing is written to the client, nothing is recorded for later. A request that
  resolves (a mode name of the enumeration, a temperature, a fan argument with a
  percent) returns normally; one that does not resolve raises its own error, and the
  entity is unchanged then too.
\<close>

theorem commands_skipped_when_disconnected:
  assumes "\<not> is_connected s"
  shows "send_command t c s = (None, s)
       \<and> set_mode t m s = (None, s)
       \<and> set_time t minutes s = (None, s)
       \<and> async_set_temperature t (Some x) s = (None, s)
       \<and> async_set_hvac_mode cmds t (HVACMode_value hm) s = (None, s)
       \<and> async_set_preset_mode cmds t (PresetMode_value pm) s = (None, s)
       \<and> (\<forall>p. resolve_fan_pct a = Inr p \<longrightarrow> async_set_fan_mode t a s = (None, s))
       \<and> snd (async_set_temperature t arg s) = s
       \<and> snd (async_set_hvac_mode cmds t hvac_name s) = s
       \<and> snd (async_set_preset_mode cmds t preset_name s) = s
       \<and> snd (async_set_fan_mode t a s) = s"
proof -
  note d = send_command_disconnected [OF assms]
  have "snd (async_set_temperature t arg s) = s"
    by (cases arg) (simp_all add: async_set_temperature_def d)
  moreover have "snd (async_set_hvac_mode cmds t hvac_name s) = s"
    by (cases "HVACMode_of_value hvac_name")
      (simp_all add: async_set_hvac_mode_def set_mode_def set_time_def d)
  moreover have "snd (async_set_preset_mode cmds t preset_name s) = s"
    by (cases "PresetMode_of_value preset_name")
      (simp_all add: async_set_preset_mode_def set_mode_def d)
  moreover have "snd (async_set_fan_mode t a s) = s"
    by (cases "resolve_fan_pct a") (simp_all add: async_set_fan_mode_def d)
  moreover have "\<forall>p. resolve_fan_pct a = Inr p \<longrightarrow> async_set_fan_mode t a s = (None, s)"
    by (simp add: async_set_fan_mode_def d)
  ultimately show ?thesis
    by (simp add: d set_mode_def set_time_def async_set_temperature_def
        async_set_hvac_mode_def async_set_preset_mode_def
        HVACMode_of_value_value PresetMode_of_value_value)
qed

theorem commands_skipped_when_disconnected_witness:
  "\<not> is_connected (init ''F0:0D'')
   \<and> resolve_fan_pct (Fan_str ''high'') = Inr 75
   \<and> async_set_fan_mode
         \<lparr>connect_outcome = \<lambda>k. (None, True), disconnect_outcome = \<lambda>k. (None, False),
          write_outcome = \<lambda>k. None\<rparr> (Fan_str ''high'') (init ''F0:0D'') = (None, init ''F0:0D'')
   \<and> async_set_hvac_mode [''heat'' \<mapsto> 3]
         \<lparr>connect_outcome = \<lambda>k. (None, True), disconnect_outcome = \<lambda>k. (None, False),
          write_outcome = \<lambda>k. None\<rparr> ''heat'' (init ''F0:0D'') = (None, init ''F0:0D'')
   \<and> trace (snd (async_set_temperature
         \<lparr>connect_outcome = \<lambda>k. (None, True), disconnect_outcome = \<lambda>k. (None, False),
          write_outcome = \<lambda>k. None\<rparr> (Some 72) (init ''F0:0D''))) = []"
  using commands_skipped_when_disconnected
          [of "init ''F0:0D''"
              "\<lparr>connect_outcome = \<lambda>k. (None, True), disconnect_outcome = \<lambda>k. (None, False),
                write_outcome = \<lambda>k. None\<rparr>"
              "[]" PyNone 600 72 "[''heat'' \<mapsto> 3]" HVAC_heat Preset_heat "Fan_str ''high''"
              "Some 72" "''heat''" "''heat''"]
  by (simp add: init_def resolve_fan_pct_def isnumeric_def is_digit_def FanMode_by_name_def
      bind_err_simps)

text \<open>
  C10. Once the argument of \<open>async_set_fan_mode\<close> has resolved to a percent \<open>p\<close>: outside
  \<open>0 \<le> p \<le> 100\<close> the method returns normally and leaves the entity as it was; inside
  it hands \<open>[0x07, round(p / 5) - 1]\<close> to \<open>send_command\<close>, which writes it on a connected
  entity; for \<open>p\<close> in \<open>{0, 1, 2}\<close> the data byte is \<open>-1\<close>.
\<close>

theorem async_set_fan_mode_guard:
  assumes "resolve_fan_pct a = Inr p"
  shows "(\<not> (0 \<le> p \<and> p \<le> 100) \<longrightarrow> async_set_fan_mode t a s = (None, s))
       \<and> (0 \<le> p \<and> p \<le> 100 \<longrightarrow>
            async_set_fan_mode t a s =
              send_command t [PyInt 0x07, PyInt (py_round (of_int p / 5) - 1)] s)
       \<and> (0 \<le> p \<and> p \<le> 100 \<and> is_connected s \<longrightarrow>
            async_set_fan_mode t a s =
              (write_outcome t (length (filter is_write (trace s))),
               s\<lparr>trace := trace s @
                  [Ev_write_gatt_char [PyInt 0x07, PyInt (py_round (of_int p / 5) - 1)]]\<rparr>))
       \<and> (p \<in> {0, 1, 2} \<longrightarrow> py_round (of_int p / 5) - 1 = - 1)"
  using assms
  by (auto simp: async_set_fan_mode_def send_command_connected py_round_div5)

theorem async_set_fan_mode_guard_witness:
  "resolve_fan_pct (Fan_str ''150'') = Inr 150
   \<and> async_set_fan_mode
         \<lparr>connect_outcome = \<lambda>k. (None, True), disconnect_outcome = \<lambda>k. (None, False),
          write_outcome = \<lambda>k. None\<rparr> (Fan_str ''150'') ((init ''F0:0D'')\<lparr>is_connected := True\<rparr>)
       = (None, (init ''F0:0D'')\<lparr>is_connected := True\<rparr>)
   \<and> resolve_fan_pct (Fan_int 2) = Inr 2
   \<and> async_set_fan_mode
         \<lparr>connect_outcome = \<lambda>k. (None, True), disconnect_outcome = \<lambda>k. (None, False),
          write_outcome = \<lambda>k. None\<rparr> (Fan_int 2) ((init ''F0:0D'')\<lparr>is_connected := True\<rparr>)
       = (None, (init ''F0:0D'')\<lparr>is_connected := True,
                   trace := [Ev_write_gatt_char [PyInt 7, PyInt (- 1)]]\<rparr>)"
  using async_set_fan_mode_guard
          [of "Fan_str ''150''" 150
              "\<lparr>connect_outcome = \<lambda>k. (None, True), disconnect_outcome = \<lambda>k. (None, False),
                write_outcome = \<lambda>k. None\<rparr>" "(init ''F0:0D'')\<lparr>is_connected := True\<rparr>"]
        async_set_fan_mode_guard
          [of "Fan_int 2" 2
              "\<lparr>connect_outcome = \<lambda>k. (None, True), disconnect_outcome = \<lambda>k. (None, False),
                write_outcome = \<lambda>k. None\<rparr>" "(init ''F0:0D'')\<lparr>is_connected := True\<rparr>"]
  by (simp add: init_def resolve_fan_pct_def isnumeric_def is_digit_def int_of_digits_def
      py_round_div5 [of 2, simplified] send_command_connected)

subsection \<open>The connection loop\<close>

lemma connect_loop_raise_step:
  assumes c: "fst (connect_outcome t (count_list (trace s) Ev_connect)) \<noteq> None"
    and d: "fst (disconnect_outcome t (count_list (trace s) Ev_disconnect)) = None
            \<or> fst (disconnect_outcome t (count_list (trace s) Ev_disconnect)) = Some BleakError"
    and n: "\<not> snd (disconnect_outcome t (count_list (trace s) Ev_disconnect))"
  shows "connect_loop t (i # rest) s =
           connect_loop t rest
             (s\<lparr>is_connected := False,
                trace := trace s @ [Ev_connect, Ev_disconnect, Ev_sleep ((int i + 1) * 10)]\<rparr>)"
proof -
  obtain e b where co: "connect_outcome t (count_list (trace s) Ev_connect) = (Some e, b)"
    using c by (cases "connect_outcome t (count_list (trace s) Ev_connect)") auto
  obtain r where do: "disconnect_outcome t (count_list (trace s) Ev_disconnect) = (r, False)"
    and r: "r = None \<or> r = Some BleakError"
    using d n by (cases "disconnect_outcome t (count_list (trace s) Ev_disconnect)") auto
  from r show ?thesis
    by (auto simp: co do client_connect_def client_disconnect_def asyncio_sleep_def Let_def)
qed

lemma connect_loop_ok_step:
  assumes "connect_outcome t (count_list (trace s) Ev_connect) = (None, True)"
  shows "connect_loop t (i # rest) s =
           (None, s\<lparr>is_connected := True, disconnected_callback := Some On_disconnect,
                    trace := trace s @ [Ev_connect,
                                        Ev_set_disconnected_callback (Some On_disconnect)]\<rparr>)"
  using assms
  by (simp add: client_connect_def client_set_disconnected_callback_def)

lemma connect_loop_all_fail:
  assumes c: "\<forall>k. fst (connect_outcome t k) \<noteq> None"
    and d: "\<forall>k. (fst (disconnect_outcome t k) = None \<or> fst (disconnect_outcome t k) = Some BleakError)
                \<and> \<not> snd (disconnect_outcome t k)"
    and n: "\<not> is_connected s"
  shows "connect_loop t is s =
           (None, s\<lparr>trace := trace s @ concat (map (\<lambda>i. [Ev_connect, Ev_disconnect, Ev_sleep ((int i + 1) * 10)]) is)\<rparr>)"
  using n
proof (induction "is" arbitrary: s)
  case Nil
  then show ?case by simp
next
  case (Cons i rest)
  let ?s = "s\<lparr>is_connected := False,
                trace := trace s @ [Ev_connect, Ev_disconnect, Ev_sleep ((int i + 1) * 10)]\<rparr>"
  have "connect_loop t (i # rest) s = connect_loop t rest ?s"
    using c d by (intro connect_loop_raise_step) auto
  also have "\<dots> = (None, ?s\<lparr>trace := trace ?s @ concat (map (\<lambda>i. [Ev_connect, Ev_disconnect, Ev_sleep ((int i + 1) * 10)]) rest)\<rparr>)"
    by (rule Cons.IH) simp
  also have "\<dots> = (None, s\<lparr>trace := trace s @ concat (map (\<lambda>i. [Ev_connect, Ev_disconnect, Ev_sleep ((int i + 1) * 10)]) (i # rest))\<rparr>)"
    using Cons.prems by simp
  finally show ?case .
qed


lemma connect_loop_fail_then_ok:
  assumes d: "\<forall>k. (fst (disconnect_outcome t k) = None \<or> fst (disconnect_outcome t k) = Some BleakError)
                \<and> \<not> snd (disconnect_outcome t k)"
  shows "\<forall>k<N. fst (connect_outcome t (count_list (trace s) Ev_connect + k)) \<noteq> None \<Longrightarrow>
         connect_outcome t (count_list (trace s) Ev_connect + N) = (None, True) \<Longrightarrow>
         \<not> is_connected s \<Longrightarrow> N < m \<Longrightarrow>
         connect_loop t [i0..<i0 + m] s =
           (None, s\<lparr>is_connected := True, disconnected_callback := Some On_disconnect,
                    trace := trace s
                      @ concat (map (\<lambda>i. [Ev_connect, Ev_disconnect, Ev_sleep ((int i + 1) * 10)])
                                  [i0..<i0 + N])
                      @ [Ev_connect, Ev_set_disconnected_callback (Some On_disconnect)]\<rparr>)"
proof (induction N arbitrary: s i0 m)
  case 0
  from \<open>0 < m\<close> have "[i0..<i0 + m] = i0 # [Suc i0..<i0 + m]"
    by (simp add: upt_conv_Cons)
  moreover have "connect_loop t (i0 # [Suc i0..<i0 + m]) s =
      (None, s\<lparr>is_connected := True, disconnected_callback := Some On_disconnect,
               trace := trace s @ [Ev_connect,
                                   Ev_set_disconnected_callback (Some On_disconnect)]\<rparr>)"
    using "0.prems"(2) by (intro connect_loop_ok_step) simp
  ultimately show ?case by simp
next
  case (Suc N)
  let ?s = "s\<lparr>is_connected := False,
                trace := trace s @ [Ev_connect, Ev_disconnect, Ev_sleep ((int i0 + 1) * 10)]\<rparr>"
  from \<open>Suc N < m\<close> have l: "[i0..<i0 + m] = i0 # [Suc i0..<Suc i0 + (m - 1)]"
    by (simp add: upt_conv_Cons)
  have c0: "fst (connect_outcome t (count_list (trace s) Ev_connect)) \<noteq> None"
    using Suc.prems(1) by (auto dest: spec [of _ 0])
  have "connect_loop t [i0..<i0 + m] s = connect_loop t [Suc i0..<Suc i0 + (m - 1)] ?s"
    unfolding l using c0 d by (intro connect_loop_raise_step) auto
  also have "\<dots> =
      (None, ?s\<lparr>is_connected := True, disconnected_callback := Some On_disconnect,
                 trace := trace ?s
                   @ concat (map (\<lambda>i. [Ev_connect, Ev_disconnect, Ev_sleep ((int i + 1) * 10)])
                               [Suc i0..<Suc i0 + N])
                   @ [Ev_connect, Ev_set_disconnected_callback (Some On_disconnect)]\<rparr>)"
  proof (rule Suc.IH)
    show "\<forall>k<N. fst (connect_outcome t (count_list (trace ?s) Ev_connect + k)) \<noteq> None"
      using Suc.prems(1) by auto
    show "connect_outcome t (count_list (trace ?s) Ev_connect + N) = (None, True)"
      using Suc.prems(2) by simp
    show "\<not> is_connected ?s" by simp
    show "N < m - 1" using Suc.prems(4) by simp
  qed
  also have "\<dots> =
      (None, s\<lparr>is_connected := True, disconnected_callback := Some On_disconnect,
                trace := trace s
                  @ concat (map (\<lambda>i. [Ev_connect, Ev_disconnect, Ev_sleep ((int i + 1) * 10)])
                              [i0..<i0 + Suc N])
                  @ [Ev_connect, Ev_set_disconnected_callback (Some On_disconnect)]\<rparr>)"
    by (simp add: upt_conv_Cons)
  finally show ?case .
qed

lemma connect_loop_callback:
  "connect_loop t is s = (r, s') \<Longrightarrow>
     (disconnected_callback s' = disconnected_callback s
        \<and> (\<exists>tr. trace s' = trace s @ tr \<and> (\<forall>cb. Ev_set_disconnected_callback cb \<notin> set tr))
        \<and> (r = None \<longrightarrow> is = [] \<and> s' = s \<or> \<not> is_connected s'))
   \<or> (r = None \<and> is_connected s' \<and> disconnected_callback s' = Some On_disconnect
        \<and> (\<exists>tr. trace s' = trace s @ tr @ [Ev_set_disconnected_callback (Some On_disconnect)]
              \<and> Ev_connect \<in> set tr \<and> (\<forall>cb. Ev_set_disconnected_callback cb \<notin> set tr)))"
proof (induction "is" arbitrary: s)
  case Nil
  then show ?case by simp
next
  case (Cons i rest)
  obtain e b where co: "connect_outcome t (count_list (trace s) Ev_connect) = (e, b)"
    by (cases "connect_outcome t (count_list (trace s) Ev_connect)")
  obtain e2 b2 where do: "disconnect_outcome t (count_list (trace s) Ev_disconnect) = (e2, b2)"
    by (cases "disconnect_outcome t (count_list (trace s) Ev_disconnect)")
  let ?s1 = "s\<lparr>is_connected := b, trace := trace s @ [Ev_connect]\<rparr>"
  let ?s3 = "s\<lparr>is_connected := b2,
                 trace := trace s @ [Ev_connect, Ev_disconnect, Ev_sleep ((int i + 1) * 10)]\<rparr>"
  consider (ok) "e = None" "b"
    | (silent) "e = None" "\<not> b"
    | (escape) "e \<noteq> None" "e2 \<noteq> None" "e2 \<noteq> Some BleakError"
    | (late) "e \<noteq> None" "e2 = None \<or> e2 = Some BleakError" "b2"
    | (retry) "e \<noteq> None" "e2 = None \<or> e2 = Some BleakError" "\<not> b2"
    by (cases b; cases b2; cases "e = None"; cases "e2 = None"; auto)
  then show ?case
  proof cases
    case ok
    with Cons.prems co have "r = None"
      and "s' = s\<lparr>is_connected := True, disconnected_callback := Some On_disconnect,
                   trace := trace s @ [Ev_connect] @ [Ev_set_disconnected_callback (Some On_disconnect)]\<rparr>"
      by (auto simp: client_connect_def client_set_disconnected_callback_def)
    then show ?thesis by auto
  next
    case silent
    with Cons.prems co have "connect_loop t rest ?s1 = (r, s')"
      by (simp add: client_connect_def)
    from Cons.IH [OF this] silent show ?thesis
      by (elim disjE conjE exE; simp) auto
  next
    case escape
    with Cons.prems co do have "r = e2"
      and "s' = s\<lparr>is_connected := b2, trace := trace s @ [Ev_connect, Ev_disconnect]\<rparr>"
      by (auto simp: client_connect_def client_disconnect_def split: if_splits)
    with escape show ?thesis by auto
  next
    case late
    with Cons.prems co do have "r = None"
      and "s' = s\<lparr>is_connected := True, disconnected_callback := Some On_disconnect,
                   trace := trace s @ [Ev_connect, Ev_disconnect, Ev_sleep ((int i + 1) * 10)]
                            @ [Ev_set_disconnected_callback (Some On_disconnect)]\<rparr>"
      by (auto simp: client_connect_def client_disconnect_def asyncio_sleep_def
          client_set_disconnected_callback_def Let_def split: if_splits)
    then show ?thesis by auto
  next
    case retry
    with Cons.prems co do have "connect_loop t rest ?s3 = (r, s')"
      by (auto simp: client_connect_def client_disconnect_def asyncio_sleep_def Let_def
          split: if_splits)
    from Cons.IH [OF this] retry show ?thesis
      by (elim disjE conjE exE; simp) auto
  qed
qed


lemma count_connect_attempts:
  "count_list (concat (map (\<lambda>i. [Ev_connect, Ev_disconnect, Ev_sleep (f i)]) is))
     Ev_connect = length is"
  by (induction "is") simp_all

lemma connect_all_fail:
  assumes c: "\<forall>k. fst (connect_outcome t k) \<noteq> None"
    and d: "\<forall>k. (fst (disconnect_outcome t k) = None \<or> fst (disconnect_outcome t k) = Some BleakError)
                \<and> \<not> snd (disconnect_outcome t k)"
    and n: "\<not> is_connected s"
  shows "connect t n s =
           (Some (connect_failed (mac s) n),
            s\<lparr>trace := trace s @ concat (map (\<lambda>i. [Ev_connect, Ev_disconnect, Ev_sleep ((int i + 1) * 10)])
                                            [0..<nat n])\<rparr>)"
  using n by (simp add: connect_def connect_loop_all_fail [OF c d n])

lemma connect_fail_then_ok:
  assumes d: "\<forall>k. (fst (disconnect_outcome t k) = None \<or> fst (disconnect_outcome t k) = Some BleakError)
                \<and> \<not> snd (disconnect_outcome t k)"
    and c: "\<forall>k<N. fst (connect_outcome t (count_list (trace s) Ev_connect + k)) \<noteq> None"
    and ok: "connect_outcome t (count_list (trace s) Ev_connect + N) = (None, True)"
    and n: "\<not> is_connected s" and m: "int N < n"
  shows "connect t n s =
           (None, s\<lparr>is_connected := True, disconnected_callback := Some On_disconnect,
                    trace := trace s
                      @ concat (map (\<lambda>i. [Ev_connect, Ev_disconnect, Ev_sleep ((int i + 1) * 10)])
                                  [0..<N])
                      @ [Ev_connect, Ev_set_disconnected_callback (Some On_disconnect)]\<rparr>)"
proof -
  from m have "N < nat n" by simp
  from connect_loop_fail_then_ok [OF d c ok n this, of 0]
  show ?thesis by (simp add: connect_def)
qed

lemma connect_disconnect_escapes:
  assumes c: "fst (connect_outcome t (count_list (trace s) Ev_connect)) \<noteq> None"
    and d: "disconnect_outcome t (count_list (trace s) Ev_disconnect) = (Some e, b)"
    and e: "e \<noteq> BleakError" and n: "0 < n"
  shows "connect t n s = (Some e, s\<lparr>is_connected := b, trace := trace s @ [Ev_connect, Ev_disconnect]\<rparr>)"
proof -
  obtain e1 b1 where co: "connect_outcome t (count_list (trace s) Ev_connect) = (Some e1, b1)"
    using c by (cases "connect_outcome t (count_list (trace s) Ev_connect)") auto
  from n have "[0..<nat n] = 0 # [1..<nat n]"
    by (simp add: upt_conv_Cons)
  then show ?thesis
    using e by (simp add: connect_def co d client_connect_def client_disconnect_def)
qed

text \<open>
  C7 (as amended). \<open>connect(max_retries)\<close> (default 10) calls the client's \<open>connect\<close> up
  to \<open>max_retries\<close> times. After each call that raises it calls the client's
  \<open>disconnect\<close> and swallows a \<open>BleakError\<close> of it, then sleeps \<open>(i + 1) * 10\<close> seconds,
  \<open>i\<close> being the index of the attempt from 0: 10, 20, 30 and so on. It returns, the
  callback registered, as soon as the client reports connected after an attempt. If
  every \<open>connect\<close> raises (the disconnects returning or raising \<open>BleakError\<close>), it makes
  exactly \<open>max_retries\<close> attempts, and \<open>connect(3)\<close> ends after exactly three attempts
  and the waits 10, 20, 30 in an exception whose message carries the address and the
  number 3. An exception of the defensive disconnect that is not a \<open>BleakError\<close> leaves
  \<open>connect\<close> at once: no wait, no further attempt.
\<close>

theorem connect_retry_backoff:
  assumes "\<not> is_connected s"
  shows "((\<forall>k. fst (connect_outcome t k) \<noteq> None)
          \<and> (\<forall>k. (fst (disconnect_outcome t k) = None \<or> fst (disconnect_outcome t k) = Some BleakError)
                  \<and> \<not> snd (disconnect_outcome t k)) \<longrightarrow>
            connect t n s =
              (Some (connect_failed (mac s) n),
               s\<lparr>trace := trace s
                    @ concat (map (\<lambda>i. [Ev_connect, Ev_disconnect, Ev_sleep ((int i + 1) * 10)])
                                [0..<nat n])\<rparr>)
            \<and> count_list (trace (snd (connect t n s))) Ev_connect
                = count_list (trace s) Ev_connect + nat n
            \<and> count_list (trace (snd (connect_default t s))) Ev_connect
                = count_list (trace s) Ev_connect + 10
            \<and> connect t 3 s =
              (Some (Exception (''Failed to connect to '' @ mac s @ '' after 3 attempts.'')),
               s\<lparr>trace := trace s
                    @ [Ev_connect, Ev_disconnect, Ev_sleep 10,
                       Ev_connect, Ev_disconnect, Ev_sleep 20,
                       Ev_connect, Ev_disconnect, Ev_sleep 30]\<rparr>))
       \<and> ((\<forall>k<N. fst (connect_outcome t (count_list (trace s) Ev_connect + k)) \<noteq> None)
          \<and> connect_outcome t (count_list (trace s) Ev_connect + N) = (None, True)
          \<and> (\<forall>k. (fst (disconnect_outcome t k) = None \<or> fst (disconnect_outcome t k) = Some BleakError)
                  \<and> \<not> snd (disconnect_outcome t k))
          \<and> int N < n \<longrightarrow>
            connect t n s =
              (None, s\<lparr>is_connected := True, disconnected_callback := Some On_disconnect,
                       trace := trace s
                         @ concat (map (\<lambda>i. [Ev_connect, Ev_disconnect, Ev_sleep ((int i + 1) * 10)])
                                     [0..<N])
                         @ [Ev_connect, Ev_set_disconnected_callback (Some On_disconnect)]\<rparr>))
       \<and> (fst (connect_outcome t (count_list (trace s) Ev_connect)) \<noteq> None
          \<and> disconnect_outcome t (count_list (trace s) Ev_disconnect) = (Some e, b)
          \<and> e \<noteq> BleakError \<and> 0 < n \<longrightarrow>
            connect t n s =
              (Some e, s\<lparr>is_connected := b, trace := trace s @ [Ev_connect, Ev_disconnect]\<rparr>))"
proof (intro conjI impI)
  assume h: "(\<forall>k. fst (connect_outcome t k) \<noteq> None)
          \<and> (\<forall>k. (fst (disconnect_outcome t k) = None \<or> fst (disconnect_outcome t k) = Some BleakError)
                  \<and> \<not> snd (disconnect_outcome t k))"
  then have c: "\<forall>k. fst (connect_outcome t k) \<noteq> None"
    and d: "\<forall>k. (fst (disconnect_outcome t k) = None \<or> fst (disconnect_outcome t k) = Some BleakError)
                  \<and> \<not> snd (disconnect_outcome t k)"
    by blast+
  show g: "connect t n s =
              (Some (connect_failed (mac s) n),
               s\<lparr>trace := trace s
                    @ concat (map (\<lambda>i. [Ev_connect, Ev_disconnect, Ev_sleep ((int i + 1) * 10)])
                                [0..<nat n])\<rparr>)"
    by (rule connect_all_fail [OF c d assms])
  show "count_list (trace (snd (connect t n s))) Ev_connect
                = count_list (trace s) Ev_connect + nat n"
    by (simp add: g count_connect_attempts)
  show "count_list (trace (snd (connect_default t s))) Ev_connect
                = count_list (trace s) Ev_connect + 10"
    by (simp add: connect_default_def connect_all_fail [OF c d assms] count_connect_attempts)
  show "connect t 3 s =
              (Some (Exception (''Failed to connect to '' @ mac s @ '' after 3 attempts.'')),
               s\<lparr>trace := trace s
                    @ [Ev_connect, Ev_disconnect, Ev_sleep 10,
                       Ev_connect, Ev_disconnect, Ev_sleep 20,
                       Ev_connect, Ev_disconnect, Ev_sleep 30]\<rparr>)"
    by (simp add: connect_all_fail [OF c d assms] connect_failed_def str_int_def
        str_nat.simps digit_char_def upt_conv_Cons)
next
  assume h: "(\<forall>k<N. fst (connect_outcome t (count_list (trace s) Ev_connect + k)) \<noteq> None)
          \<and> connect_outcome t (count_list (trace s) Ev_connect + N) = (None, True)
          \<and> (\<forall>k. (fst (disconnect_outcome t k) = None \<or> fst (disconnect_outcome t k) = Some BleakError)
                  \<and> \<not> snd (disconnect_outcome t k))
          \<and> int N < n"
  then show "connect t n s =
              (None, s\<lparr>is_connected := True, disconnected_callback := Some On_disconnect,
                       trace := trace s
                         @ concat (map (\<lambda>i. [Ev_connect, Ev_disconnect, Ev_sleep ((int i + 1) * 10)])
                                     [0..<N])
                         @ [Ev_connect, Ev_set_disconnected_callback (Some On_disconnect)]\<rparr>)"
    using assms by (intro connect_fail_then_ok) blast+
next
  assume "fst (connect_outcome t (count_list (trace s) Ev_connect)) \<noteq> None
          \<and> disconnect_outcome t (count_list (trace s) Ev_disconnect) = (Some e, b)
          \<and> e \<noteq> BleakError \<and> 0 < n"
  then show "connect t n s =
              (Some e, s\<lparr>is_connected := b, trace := trace s @ [Ev_connect, Ev_disconnect]\<rparr>)"
    by (intro connect_disconnect_escapes) blast+
qed


theorem connect_retry_backoff_witness:
  "\<not> is_connected (init ''F0:0D'')
   \<and> connect \<lparr>connect_outcome = \<lambda>k. (Some OtherError, False),
               disconnect_outcome = \<lambda>k. (Some BleakError, False),
               write_outcome = \<lambda>k. None\<rparr> 3 (init ''F0:0D'') =
       (Some (Exception ''Failed to connect to F0:0D after 3 attempts.''),
        (init ''F0:0D'')\<lparr>trace := [Ev_connect, Ev_disconnect, Ev_sleep 10,
                                   Ev_connect, Ev_disconnect, Ev_sleep 20,
                                   Ev_connect, Ev_disconnect, Ev_sleep 30]\<rparr>)
   \<and> connect \<lparr>connect_outcome = \<lambda>k. if k < 2 then (Some OtherError, False) else (None, True),
               disconnect_outcome = \<lambda>k. (None, False),
               write_outcome = \<lambda>k. None\<rparr> 10 (init ''F0:0D'') =
       (None,
        (init ''F0:0D'')\<lparr>is_connected := True,
                          trace := [Ev_connect, Ev_disconnect, Ev_sleep 10,
                                    Ev_connect, Ev_disconnect, Ev_sleep 20,
                                    Ev_connect,
                                    Ev_set_disconnected_callback (Some On_disconnect)]\<rparr>)
   \<and> connect \<lparr>connect_outcome = \<lambda>k. (Some OtherError, False),
               disconnect_outcome = \<lambda>k. (Some OtherError, False),
               write_outcome = \<lambda>k. None\<rparr> 3 (init ''F0:0D'') =
       (Some OtherError, (init ''F0:0D'')\<lparr>trace := [Ev_connect, Ev_disconnect]\<rparr>)"
  using connect_retry_backoff
          [of "init ''F0:0D''"
              "\<lparr>connect_outcome = \<lambda>k. (Some OtherError, False),
                disconnect_outcome = \<lambda>k. (Some BleakError, False),
                write_outcome = \<lambda>k. None\<rparr>" 3 0 OtherError False]
        connect_retry_backoff
          [of "init ''F0:0D''"
              "\<lparr>connect_outcome = \<lambda>k. if k < 2 then (Some OtherError, False) else (None, True),
                disconnect_outcome = \<lambda>k. (None, False),
                write_outcome = \<lambda>k. None\<rparr>" 10 2 OtherError False]
        connect_retry_backoff
          [of "init ''F0:0D''"
              "\<lparr>connect_outcome = \<lambda>k. (Some OtherError, False),
                disconnect_outcome = \<lambda>k. (Some OtherError, False),
                write_outcome = \<lambda>k. None\<rparr>" 3 0 OtherError False]
  by (simp add: init_def upt_conv_Cons connect_failed_def str_int_def str_nat.simps
      digit_char_def)

text \<open>
  C7 as the claim words it fails where the defensive disconnect raises an exception that
  is not a \<open>BleakError\<close>.
\<close>

theorem connect_disconnect_error_counterexample:
  "connect \<lparr>connect_outcome = \<lambda>k. (Some OtherError, False),
            disconnect_outcome = \<lambda>k. (Some OtherError, False),
            write_outcome = \<lambda>k. None\<rparr> 3 (init ''F0:0D'') =
     (Some OtherError, (init ''F0:0D'')\<lparr>trace := [Ev_connect, Ev_disconnect]\<rparr>)
   \<and> connect \<lparr>connect_outcome = \<lambda>k. (Some OtherError, False),
               disconnect_outcome = \<lambda>k. (Some OtherError, False),
               write_outcome = \<lambda>k. None\<rparr> 3 (init ''F0:0D'')
       \<noteq> (Some (connect_failed ''F0:0D'' 3),
           (init ''F0:0D'')\<lparr>trace := [Ev_connect, Ev_disconnect, Ev_sleep 10,
                                      Ev_connect, Ev_disconnect, Ev_sleep 20,
                                      Ev_connect, Ev_disconnect, Ev_sleep 30]\<rparr>)"
  by (simp add: connect_def upt_conv_Cons client_connect_def client_disconnect_def init_def)


lemma connect_cases:
  obtains (failed) e s' where "connect_loop t [0..<nat n] s = (Some e, s')" "connect t n s = (Some e, s')"
  | (exhausted) s' where "connect_loop t [0..<nat n] s = (None, s')" "\<not> is_connected s'"
      "connect t n s = (Some (connect_failed (mac s') n), s')"
  | (connected) s' where "connect_loop t [0..<nat n] s = (None, s')" "is_connected s'"
      "connect t n s = (None, s')"
proof (cases "connect_loop t [0..<nat n] s")
  case (Pair r s')
  then show ?thesis
    by (cases r; cases "is_connected s'") (auto simp: connect_def intro: failed exhausted connected)
qed

text \<open>
  C8 (as amended). The constructor registers \<open>on_disconnect\<close> on the client, before any
  connection; \<open>on_disconnect\<close> and \<open>disconnect\<close> clear the registration. \<open>connect\<close>
  itself registers the callback only upon success: a \<open>connect\<close> that ends in an
  exception leaves the registration as it found it and never calls
  \<open>set_disconnected_callback\<close>; a \<open>connect\<close> of at least one attempt that returns has
  made that call exactly once, as its last step, after a client \<open>connect\<close> and with the
  client reporting connected.
\<close>

theorem callback_registered_by_connect_on_success:
  "disconnected_callback (init a) = Some On_disconnect
   \<and> disconnected_callback (on_disconnect s) = None
   \<and> disconnected_callback (snd (disconnect t s)) = None
   \<and> (fst (connect t n s) \<noteq> None \<longrightarrow>
        disconnected_callback (snd (connect t n s)) = disconnected_callback s
        \<and> (\<exists>tr. trace (snd (connect t n s)) = trace s @ tr
               \<and> (\<forall>cb. Ev_set_disconnected_callback cb \<notin> set tr)))
   \<and> (fst (connect t n s) = None \<and> 0 < n \<longrightarrow>
        is_connected (snd (connect t n s))
        \<and> disconnected_callback (snd (connect t n s)) = Some On_disconnect
        \<and> (\<exists>tr. trace (snd (connect t n s))
                    = trace s @ tr @ [Ev_set_disconnected_callback (Some On_disconnect)]
               \<and> Ev_connect \<in> set tr
               \<and> (\<forall>cb. Ev_set_disconnected_callback cb \<notin> set tr)))
   \<and> (n \<le> 0 \<longrightarrow> snd (connect t n s) = s)"
proof -
  have i: "disconnected_callback (init a) = Some On_disconnect"
    by (simp add: init_def)
  have o: "disconnected_callback (on_disconnect s) = None"
    by (simp add: on_disconnect_def client_set_disconnected_callback_def
        schedule_update_ha_state_def)
  have d: "disconnected_callback (snd (disconnect t s)) = None"
    by (simp add: disconnect_def client_disconnect_def client_set_disconnected_callback_def
        split: prod.splits)
  have z: "n \<le> 0 \<longrightarrow> snd (connect t n s) = s"
    by (simp add: connect_def)
  have f: "fst (connect t n s) \<noteq> None \<longrightarrow>
        disconnected_callback (snd (connect t n s)) = disconnected_callback s
        \<and> (\<exists>tr. trace (snd (connect t n s)) = trace s @ tr
               \<and> (\<forall>cb. Ev_set_disconnected_callback cb \<notin> set tr))"
  proof (cases t n s rule: connect_cases)
    case (failed e s')
    from connect_loop_callback [OF failed(1)] failed(2) show ?thesis by auto
  next
    case (exhausted s')
    from connect_loop_callback [OF exhausted(1)] exhausted(2,3) show ?thesis by auto
  next
    case (connected s')
    then show ?thesis by simp
  qed
  have g: "fst (connect t n s) = None \<and> 0 < n \<longrightarrow>
        is_connected (snd (connect t n s))
        \<and> disconnected_callback (snd (connect t n s)) = Some On_disconnect
        \<and> (\<exists>tr. trace (snd (connect t n s))
                    = trace s @ tr @ [Ev_set_disconnected_callback (Some On_disconnect)]
               \<and> Ev_connect \<in> set tr
               \<and> (\<forall>cb. Ev_set_disconnected_callback cb \<notin> set tr))"
  proof (cases t n s rule: connect_cases)
    case (failed e s')
    then show ?thesis by simp
  next
    case (exhausted s')
    then show ?thesis by simp
  next
    case (connected s')
    show ?thesis
    proof
      assume "fst (connect t n s) = None \<and> 0 < n"
      then have "[0..<nat n] \<noteq> []" by simp
      with connect_loop_callback [OF connected(1)] connected(2,3) show
        "is_connected (snd (connect t n s))
        \<and> disconnected_callback (snd (connect t n s)) = Some On_disconnect
        \<and> (\<exists>tr. trace (snd (connect t n s))
                    = trace s @ tr @ [Ev_set_disconnected_callback (Some On_disconnect)]
               \<and> Ev_connect \<in> set tr
               \<and> (\<forall>cb. Ev_set_disconnected_callback cb \<notin> set tr))"
        by auto
    qed
  qed
  from i o d f g z show ?thesis by (intro conjI)
qed

theorem callback_registered_by_connect_on_success_witness:
  "fst (connect \<lparr>connect_outcome = \<lambda>k. (Some OtherError, False),
                 disconnect_outcome = \<lambda>k. (None, False),
                 write_outcome = \<lambda>k. None\<rparr> 3 (on_disconnect (init ''F0:0D''))) \<noteq> None
   \<and> disconnected_callback
        (snd (connect \<lparr>connect_outcome = \<lambda>k. (Some OtherError, False),
                       disconnect_outcome = \<lambda>k. (None, False),
                       write_outcome = \<lambda>k. None\<rparr> 3 (on_disconnect (init ''F0:0D'')))) = None
   \<and> fst (connect \<lparr>connect_outcome = \<lambda>k. (None, True),
                   disconnect_outcome = \<lambda>k. (None, False),
                   write_outcome = \<lambda>k. None\<rparr> 3 (on_disconnect (init ''F0:0D''))) = None
   \<and> (0 :: int) < 3
   \<and> disconnected_callback
        (snd (connect \<lparr>connect_outcome = \<lambda>k. (None, True),
                       disconnect_outcome = \<lambda>k. (None, False),
                       write_outcome = \<lambda>k. None\<rparr> 3 (on_disconnect (init ''F0:0D''))))
       = Some On_disconnect
   \<and> is_connected
        (snd (connect \<lparr>connect_outcome = \<lambda>k. (None, True),
                       disconnect_outcome = \<lambda>k. (None, False),
                       write_outcome = \<lambda>k. None\<rparr> 3 (on_disconnect (init ''F0:0D''))))
   \<and> (0 :: int) \<le> 0
   \<and> snd (connect \<lparr>connect_outcome = \<lambda>k. (None, True),
                    disconnect_outcome = \<lambda>k. (None, False),
                    write_outcome = \<lambda>k. None\<rparr> 0 (on_disconnect (init ''F0:0D'')))
       = on_disconnect (init ''F0:0D'')"
proof -
  have f: "fst (connect \<lparr>connect_outcome = \<lambda>k. (Some OtherError, False),
                 disconnect_outcome = \<lambda>k. (None, False),
                 write_outcome = \<lambda>k. None\<rparr> 3 (on_disconnect (init ''F0:0D''))) \<noteq> None"
    by (simp add: connect_all_fail on_disconnect_def client_set_disconnected_callback_def
        schedule_update_ha_state_def init_def)
  have g: "fst (connect \<lparr>connect_outcome = \<lambda>k. (None, True),
                   disconnect_outcome = \<lambda>k. (None, False),
                   write_outcome = \<lambda>k. None\<rparr> 3 (on_disconnect (init ''F0:0D''))) = None"
    using connect_fail_then_ok
            [of "\<lparr>connect_outcome = \<lambda>k. (None, True), disconnect_outcome = \<lambda>k. (None, False),
                  write_outcome = \<lambda>k. None\<rparr>" 0 "on_disconnect (init ''F0:0D'')" 3]
    by (simp add: on_disconnect_def client_set_disconnected_callback_def
        schedule_update_ha_state_def init_def)
  from f g
    callback_registered_by_connect_on_success
      [of "''F0:0D''" "on_disconnect (init ''F0:0D'')"
          "\<lparr>connect_outcome = \<lambda>k. (Some OtherError, False),
            disconnect_outcome = \<lambda>k. (None, False),
            write_outcome = \<lambda>k. None\<rparr>" 3]
    callback_registered_by_connect_on_success
      [of "''F0:0D''" "on_disconnect (init ''F0:0D'')"
          "\<lparr>connect_outcome = \<lambda>k. (None, True),
            disconnect_outcome = \<lambda>k. (None, False),
            write_outcome = \<lambda>k. None\<rparr>" 3]
    callback_registered_by_connect_on_success
      [of "''F0:0D''" "on_disconnect (init ''F0:0D'')"
          "\<lparr>connect_outcome = \<lambda>k. (None, True),
            disconnect_outcome = \<lambda>k. (None, False),
            write_outcome = \<lambda>k. None\<rparr>" 0]
  show ?thesis
    by (auto simp: on_disconnect_def client_set_disconnected_callback_def
        schedule_update_ha_state_def)
qed

text \<open>
  C8 as the claim words it fails: the constructor hands \<open>on_disconnect\<close> to the client,
  so the callback is registered on an entity that has never been connected, and it still
  is after a \<open>connect\<close> during which the client never reported connected.
\<close>

theorem callback_registered_before_connect_counterexample:
  "\<not> is_connected (init ''F0:0D'') \<and> trace (init ''F0:0D'') = []
   \<and> disconnected_callback (init ''F0:0D'') = Some On_disconnect
   \<and> connect \<lparr>connect_outcome = \<lambda>k. (Some OtherError, False),
               disconnect_outcome = \<lambda>k. (None, False),
               write_outcome = \<lambda>k. None\<rparr> 1 (init ''F0:0D'') =
       (Some (connect_failed ''F0:0D'' 1),
        (init ''F0:0D'')\<lparr>trace := [Ev_connect, Ev_disconnect, Ev_sleep 10]\<rparr>)
   \<and> disconnected_callback ((init ''F0:0D'')\<lparr>trace := [Ev_connect, Ev_disconnect, Ev_sleep 10]\<rparr>)
       = Some On_disconnect"
  by (simp add: connect_all_fail init_def)

end
